theory Spec2Isabelle
  imports Complex_Main "HOL-Library.Multiset"
begin

section \<open>JavaScript values used by the scripts\<close>

text \<open>
  A JavaScript number is a finite value, one of the two infinities, or NaN. Finite values
  are exact rationals here: binary rounding and the sign of zero are not represented.
\<close>

datatype jsnum = Fin rat | PInf | NInf | NaN

fun js_sub :: "jsnum \<Rightarrow> jsnum \<Rightarrow> jsnum" where
  "js_sub NaN _ = NaN"
| "js_sub _ NaN = NaN"
| "js_sub (Fin a) (Fin b) = Fin (a - b)"
| "js_sub (Fin a) PInf = NInf"
| "js_sub (Fin a) NInf = PInf"
| "js_sub PInf PInf = NaN"
| "js_sub PInf _ = PInf"
| "js_sub NInf NInf = NaN"
| "js_sub NInf _ = NInf"

fun js_mul :: "jsnum \<Rightarrow> jsnum \<Rightarrow> jsnum" where
  "js_mul NaN _ = NaN"
| "js_mul _ NaN = NaN"
| "js_mul (Fin a) (Fin b) = Fin (a * b)"
| "js_mul (Fin a) PInf = (if a = 0 then NaN else if 0 < a then PInf else NInf)"
| "js_mul (Fin a) NInf = (if a = 0 then NaN else if 0 < a then NInf else PInf)"
| "js_mul PInf (Fin b) = (if b = 0 then NaN else if 0 < b then PInf else NInf)"
| "js_mul NInf (Fin b) = (if b = 0 then NaN else if 0 < b then NInf else PInf)"
| "js_mul PInf PInf = PInf"
| "js_mul PInf NInf = NInf"
| "js_mul NInf PInf = NInf"
| "js_mul NInf NInf = PInf"

fun js_div :: "jsnum \<Rightarrow> jsnum \<Rightarrow> jsnum" where
  "js_div NaN _ = NaN"
| "js_div _ NaN = NaN"
| "js_div (Fin a) (Fin b) =
     (if b = 0 then (if a = 0 then NaN else if 0 < a then PInf else NInf) else Fin (a / b))"
| "js_div (Fin a) _ = Fin 0"
| "js_div PInf (Fin b) = (if 0 \<le> b then PInf else NInf)"
| "js_div NInf (Fin b) = (if 0 \<le> b then NInf else PInf)"
| "js_div _ _ = NaN"

text \<open>\<^verbatim>\<open>x || 0\<close> on a number: NaN and zero are falsy.\<close>

definition or_zero :: "jsnum \<Rightarrow> jsnum" where
  "or_zero x = (if x = NaN \<or> x = Fin 0 then Fin 0 else x)"

text \<open>The scalar JSON values a payload field can hold; \<open>JUndef\<close> is an absent property.\<close>

datatype jsval = JNum jsnum | JStr string | JBool bool | JNull | JUndef

definition truthy :: "jsval \<Rightarrow> bool" where
  "truthy v = (case v of JNum n \<Rightarrow> n \<noteq> NaN \<and> n \<noteq> Fin 0 | JStr s \<Rightarrow> s \<noteq> []
                | JBool b \<Rightarrow> b | JNull \<Rightarrow> False | JUndef \<Rightarrow> False)"

subsection \<open>Reading numbers from strings\<close>

definition isStrWhiteSpace :: "char \<Rightarrow> bool" where
  "isStrWhiteSpace c = (of_char c \<in> {9, 10, 11, 12, 13, 32, 160 :: nat})"

definition isDigit :: "char \<Rightarrow> bool" where
  "isDigit c = (48 \<le> (of_char c :: nat) \<and> (of_char c :: nat) \<le> 57)"

definition digitsVal :: "string \<Rightarrow> nat" where
  "digitsVal ds = foldl (\<lambda>a c. 10 * a + (of_char c - 48)) 0 ds"

text \<open>The sign of a numeric literal: whether it is negative, and the text after it.\<close>

definition signOf :: "string \<Rightarrow> bool \<times> string" where
  "signOf s = (case s of [] \<Rightarrow> (False, [])
     | c # r \<Rightarrow> if c = CHR ''-'' then (True, r) else if c = CHR ''+'' then (False, r) else (False, s))"

text \<open>
  The exponent part of a decimal literal (\<^verbatim>\<open>e\<close>, an optional sign, digits): its value and
  the text after it; 0 and the whole text when there is none.
\<close>

definition exponentPart :: "string \<Rightarrow> int \<times> string" where
  "exponentPart s = (case s of [] \<Rightarrow> (0, s)
     | c # r \<Rightarrow> if c = CHR ''e'' \<or> c = CHR ''E''
         then (let (neg, r') = signOf r; ds = takeWhile isDigit r'
               in if ds = [] then (0, s)
                  else (if neg then - int (digitsVal ds) else int (digitsVal ds), dropWhile isDigit r'))
         else (0, s))"

text \<open>
  The longest prefix that is a signed decimal literal (\<^verbatim>\<open>Infinity\<close>, or digits with an
  optional fraction and exponent): its value, NaN when there is none, and the text after it.
\<close>

definition readDecimal :: "string \<Rightarrow> jsnum \<times> string" where
  "readDecimal s =
     (let (neg, s2) = signOf s
      in if take 8 s2 = ''Infinity'' then (if neg then NInf else PInf, drop 8 s2)
         else
           let ip = takeWhile isDigit s2;
               r1 = dropWhile isDigit s2;
               dot = (r1 \<noteq> [] \<and> hd r1 = CHR ''.'');
               fp = (if dot then takeWhile isDigit (tl r1) else []);
               r2 = (if dot then dropWhile isDigit (tl r1) else r1)
           in if ip = [] \<and> fp = [] then (NaN, s)
              else
                let (ex, r3) = exponentPart r2;
                    m = (of_nat (digitsVal ip) + of_nat (digitsVal fp) / 10 ^ length fp) * 10 powi ex
                in (Fin (if neg then - m else m), r3))"

text \<open>\<^verbatim>\<open>parseFloat\<close> on a string: leading white space is skipped, the rest after the literal ignored.\<close>

definition parseFloatStr :: "string \<Rightarrow> jsnum" where
  "parseFloatStr s = fst (readDecimal (dropWhile isStrWhiteSpace s))"

definition parseFloat :: "jsval \<Rightarrow> jsnum" where
  "parseFloat v = (case v of JNum n \<Rightarrow> n | JStr s \<Rightarrow> parseFloatStr s | _ \<Rightarrow> NaN)"

section \<open>Rate normalizers\<close>

record entry =
  casa :: jsval
  compra :: jsval
  venta :: jsval
  fecha :: jsval
  fechaActualizacion :: jsval

record rate_values =
  oficialCompra :: jsnum
  oficialVenta :: jsnum
  blueCompra :: jsnum
  blueVenta :: jsnum
  mepCompra :: jsnum
  mepVenta :: jsnum
  criptoCompra :: jsnum
  criptoVenta :: jsnum
  mayoristaCompra :: jsnum
  mayoristaVenta :: jsnum
  valuesFecha :: jsval
  blueOficialBreach :: jsnum
  blueMepBreach :: jsnum

text \<open>\<^verbatim>\<open>findValue\<close> of \<^verbatim>\<open>processCurrentApiData\<close>: the first entry with that name, parsed, or zeros.\<close>

definition findValue :: "entry list \<Rightarrow> string \<Rightarrow> jsnum \<times> jsnum" where
  "findValue data name =
     (case find (\<lambda>d. casa d = JStr name) data of
        Some item \<Rightarrow> (parseFloat (compra item), parseFloat (venta item))
      | None \<Rightarrow> (Fin 0, Fin 0))"

text \<open>
  \<^verbatim>\<open>processCurrentApiData\<close> on an array payload; \<open>nowIso\<close> is \<^verbatim>\<open>new Date().toISOString()\<close>.
\<close>

definition processCurrentApiData :: "string \<Rightarrow> entry list \<Rightarrow> rate_values" where
  "processCurrentApiData nowIso data =
     (let oficial = findValue data ''oficial'';
          blue = findValue data ''blue'';
          mep = findValue data ''bolsa'';
          cripto = findValue data ''cripto'';
          mayorista = findValue data ''mayorista''
      in \<lparr> oficialCompra = fst oficial, oficialVenta = snd oficial,
           blueCompra = fst blue, blueVenta = snd blue,
           mepCompra = fst mep, mepVenta = snd mep,
           criptoCompra = fst cripto, criptoVenta = snd cripto,
           mayoristaCompra = fst mayorista, mayoristaVenta = snd mayorista,
           valuesFecha = (case data of [] \<Rightarrow> JStr nowIso | d # _ \<Rightarrow> fechaActualizacion d),
           blueOficialBreach =
             js_mul (js_div (js_sub (snd blue) (snd oficial)) (snd oficial)) (Fin 100),
           blueMepBreach =
             js_mul (js_div (js_sub (snd blue) (snd mep)) (snd mep)) (Fin 100) \<rparr>)"

text \<open>\<^verbatim>\<open>parseFloat(x?.compra) || 0\<close>: an entry that was not found reads as \<^verbatim>\<open>undefined\<close>.\<close>

definition compraOr0 :: "entry option \<Rightarrow> jsnum" where
  "compraOr0 e = or_zero (parseFloat (case e of None \<Rightarrow> JUndef | Some d \<Rightarrow> compra d))"

definition ventaOr0 :: "entry option \<Rightarrow> jsnum" where
  "ventaOr0 e = or_zero (parseFloat (case e of None \<Rightarrow> JUndef | Some d \<Rightarrow> venta d))"

definition processHistoricalApiData :: "string \<Rightarrow> entry list \<Rightarrow> rate_values" where
  "processHistoricalApiData nowIso data =
     (let oficialData = find (\<lambda>d. casa d = JStr ''oficial'') data;
          blueData = find (\<lambda>d. casa d = JStr ''blue'') data;
          bolsaData = find (\<lambda>d. casa d = JStr ''bolsa'') data;
          mayoristaData = find (\<lambda>d. casa d = JStr ''mayorista'') data;
          criptoData = find (\<lambda>d. casa d = JStr ''cripto'') data;
          oV = ventaOr0 oficialData; bV = ventaOr0 blueData; mV = ventaOr0 bolsaData
      in \<lparr> oficialCompra = compraOr0 oficialData, oficialVenta = oV,
           blueCompra = compraOr0 blueData, blueVenta = bV,
           mepCompra = compraOr0 bolsaData, mepVenta = mV,
           criptoCompra = compraOr0 criptoData, criptoVenta = ventaOr0 criptoData,
           mayoristaCompra = compraOr0 mayoristaData, mayoristaVenta = ventaOr0 mayoristaData,
           valuesFecha = (case data of [] \<Rightarrow> JStr nowIso
                          | d # _ \<Rightarrow> if truthy (fecha d) then fecha d else JStr nowIso),
           blueOficialBreach = (if oV \<noteq> Fin 0 then js_div (js_sub bV oV) oV else Fin 0),
           blueMepBreach = (if mV \<noteq> Fin 0 then js_div (js_sub bV mV) mV else Fin 0) \<rparr>)"

text \<open>An entry with only a name and two prices, for examples.\<close>

definition mkEntry :: "string \<Rightarrow> jsval \<Rightarrow> jsval \<Rightarrow> entry" where
  "mkEntry n c v = \<lparr> casa = JStr n, compra = c, venta = v, fecha = JUndef, fechaActualizacion = JUndef \<rparr>"

section \<open>Dates\<close>

text \<open>
  A \<^verbatim>\<open>Date\<close> holds a time value, the milliseconds since 1970-01-01T00:00:00Z, or NaN
  (an invalid date, \<open>None\<close>). The calendar is the proleptic Gregorian calendar of ECMAScript.
\<close>

type_synonym jsdate = "int option"

definition msPerDay :: int where
  "msPerDay = 86400000"

definition timeClip :: "int \<Rightarrow> jsdate" where
  "timeClip t = (if \<bar>t\<bar> \<le> 8640000000000000 then Some t else None)"

text \<open>\<^verbatim>\<open>new Date(v)\<close> for a number \<open>v\<close> that may be NaN.\<close>

definition newDate :: "int option \<Rightarrow> jsdate" where
  "newDate v = (case v of None \<Rightarrow> None | Some t \<Rightarrow> timeClip t)"

text \<open>Year, month (1 to 12) and day of the month of a day number counted from 1970-01-01.\<close>

definition civil_from_days :: "int \<Rightarrow> int \<times> int \<times> int" where
  "civil_from_days z0 =
     (let z = z0 + 719468;
          era = z div 146097;
          doe = z - era * 146097;
          yoe = (doe - doe div 1460 + doe div 36524 - doe div 146096) div 365;
          doy = doe - (365 * yoe + yoe div 4 - yoe div 100);
          mp = (5 * doy + 2) div 153;
          d = doy - (153 * mp + 2) div 5 + 1;
          m = (if mp < 10 then mp + 3 else mp - 9);
          y = yoe + era * 400 + (if m \<le> 2 then 1 else 0)
      in (y, m, d))"

text \<open>The day number of a year, a month (1 to 12) and a day of the month.\<close>

definition days_from_civil :: "int \<Rightarrow> int \<Rightarrow> int \<Rightarrow> int" where
  "days_from_civil y0 m d =
     (let y = (if m \<le> 2 then y0 - 1 else y0);
          era = y div 400;
          yoe = y - era * 400;
          doy = (153 * (if 2 < m then m - 3 else m + 9) + 2) div 5 + d - 1;
          doe = yoe * 365 + yoe div 4 - yoe div 100 + doy
      in era * 146097 + doe - 719468)"

definition Day :: "int \<Rightarrow> int" where
  "Day t = t div msPerDay"

definition TimeWithinDay :: "int \<Rightarrow> int" where
  "TimeWithinDay t = t mod msPerDay"

definition YearFromTime :: "int \<Rightarrow> int" where
  "YearFromTime t = fst (civil_from_days (Day t))"

definition MonthFromTime :: "int \<Rightarrow> int" where
  "MonthFromTime t = fst (snd (civil_from_days (Day t))) - 1"

definition DateFromTime :: "int \<Rightarrow> int" where
  "DateFromTime t = snd (snd (civil_from_days (Day t)))"

definition WeekDay :: "int \<Rightarrow> int" where
  "WeekDay t = (Day t + 4) mod 7"

definition HourFromTime :: "int \<Rightarrow> int" where
  "HourFromTime t = (t div 3600000) mod 24"

definition MinFromTime :: "int \<Rightarrow> int" where
  "MinFromTime t = (t div 60000) mod 60"

definition SecFromTime :: "int \<Rightarrow> int" where
  "SecFromTime t = (t div 1000) mod 60"

definition MakeDay :: "int \<Rightarrow> int \<Rightarrow> int \<Rightarrow> int" where
  "MakeDay year month dt = days_from_civil (year + month div 12) (month mod 12 + 1) 1 + dt - 1"

definition MakeDate :: "int \<Rightarrow> int \<Rightarrow> int" where
  "MakeDate day time = day * msPerDay + time"

definition MakeTime :: "int \<Rightarrow> int \<Rightarrow> int \<Rightarrow> int" where
  "MakeTime hour minute sec = hour * 3600000 + minute * 60000 + sec * 1000"

text \<open>
  \<^verbatim>\<open>new Date(year, month, day, hours, minutes, seconds)\<close>: the local time of the given
  fields, values outside their ranges carried over by \<^verbatim>\<open>MakeDay\<close> and \<^verbatim>\<open>MakeTime\<close>;
  invalid when a field is not a finite number (\<open>None\<close>). The script's time zone is a fixed
  offset \<open>tza\<close> (local time minus UTC, in milliseconds; -10800000 for Argentina).
\<close>

definition newDateLocal ::
  "int \<Rightarrow> int option \<Rightarrow> int option \<Rightarrow> int option \<Rightarrow> int option \<Rightarrow> int option \<Rightarrow> int option \<Rightarrow> jsdate" where
  "newDateLocal tza year month dt hours minutes seconds =
     (case (year, month, dt, hours, minutes, seconds) of
        (Some y, Some m, Some d, Some h, Some mi, Some sc) \<Rightarrow>
          (let yr = (if 0 \<le> y \<and> y \<le> 99 then 1900 + y else y)
           in timeClip (MakeDate (MakeDay yr m d) (MakeTime h mi sc) - tza))
      | _ \<Rightarrow> None)"

subsection \<open>Numbers as text\<close>

fun showNat :: "nat \<Rightarrow> string" where
  "showNat n = (if n < 10 then [char_of (48 + n)] else showNat (n div 10) @ [char_of (48 + n mod 10)])"

declare showNat.simps [simp del]

definition showInt :: "int \<Rightarrow> string" where
  "showInt i = (if i < 0 then CHR ''-'' # showNat (nat (- i)) else showNat (nat i))"

text \<open>A number that may be NaN, converted to a string.\<close>

definition numToString :: "int option \<Rightarrow> string" where
  "numToString v = (case v of None \<Rightarrow> ''NaN'' | Some i \<Rightarrow> showInt i)"

text \<open>\<^verbatim>\<open>s.slice(-2)\<close>: the last two characters.\<close>

definition sliceLast2 :: "string \<Rightarrow> string" where
  "sliceLast2 s = drop (length s - 2) s"

text \<open>\<^verbatim>\<open>('0' + n).slice(-2)\<close>\<close>

definition pad2 :: "int option \<Rightarrow> string" where
  "pad2 v = sliceLast2 (CHR ''0'' # numToString v)"

text \<open>An array of names indexed by a number that may be NaN; out of range reads as \<^verbatim>\<open>undefined\<close>.\<close>

definition nameAt :: "string list \<Rightarrow> int option \<Rightarrow> string" where
  "nameAt names v =
     (case v of None \<Rightarrow> ''undefined''
      | Some i \<Rightarrow> if 0 \<le> i \<and> i < int (length names) then names ! nat i else ''undefined'')"

subsection \<open>formatDate\<close>

definition daysOfWeek :: "string list" where
  "daysOfWeek = [''Domingo'', ''Lunes'', ''Martes'', ''Mi'' @ [CHR 0xE9] @ ''rcoles'', ''Jueves'',
     ''Viernes'', ''S'' @ [CHR 0xE1] @ ''bado'']"

definition months :: "string list" where
  "months = [''Enero'', ''Febrero'', ''Marzo'', ''Abril'', ''Mayo'', ''Junio'', ''Julio'', ''Agosto'',
     ''Septiembre'', ''Octubre'', ''Noviembre'', ''Diciembre'']"

text \<open>
  \<^verbatim>\<open>formatDate(date, format)\<close>. An omitted format is the empty string: both are falsy and
  select \<^verbatim>\<open>'short'\<close>.
\<close>

definition formatDate :: "jsdate \<Rightarrow> string \<Rightarrow> string" where
  "formatDate date format =
     (let fmt = (if format = [] then ''short'' else format);
          argentinaDate = newDate (map_option (\<lambda>t. t - 3 * 60 * 60 * 1000) date);
          day = pad2 (map_option DateFromTime argentinaDate);
          month = pad2 (map_option (\<lambda>t. MonthFromTime t + 1) argentinaDate);
          year = numToString (map_option YearFromTime argentinaDate);
          shortYear = sliceLast2 year;
          hours = pad2 (map_option HourFromTime argentinaDate);
          minutes = pad2 (map_option MinFromTime argentinaDate);
          seconds = pad2 (map_option SecFromTime argentinaDate);
          weekday = nameAt daysOfWeek (map_option WeekDay argentinaDate);
          monthName = nameAt months (map_option MonthFromTime argentinaDate)
      in if fmt = ''verbose'' then weekday @ '' '' @ day @ '' de '' @ monthName @ '' de '' @ year
         else if fmt = ''sheet'' then year @ ''-'' @ month @ ''-'' @ day
         else if fmt = ''api'' then year @ ''/'' @ month @ ''/'' @ day
         else if fmt = ''dateTime'' then
           day @ ''/'' @ month @ ''/'' @ shortYear @ '' '' @ hours @ '':'' @ minutes @ '':'' @ seconds
         else if fmt = ''verboseLong'' then
           weekday @ '' '' @ day @ '' de '' @ monthName @ '' '' @ hours @ '':'' @ minutes @ '':'' @ seconds
         else if fmt = ''dayColumn'' then weekday @ '' '' @ day @ ''/'' @ month @ ''/'' @ year
         else if fmt = ''fullLong'' then weekday @ '' '' @ day @ ''-'' @ month @ ''-'' @ shortYear
         else if fmt = ''time'' then hours @ '':'' @ minutes @ '':'' @ seconds
         else if fmt = ''fullLongWithTime'' then
           weekday @ '' '' @ day @ ''-'' @ month @ ''-'' @ shortYear @ '' ''
             @ hours @ '':'' @ minutes @ '':'' @ seconds
         else day @ ''/'' @ month @ ''/'' @ year)"

section \<open>Validation and parsing of user dates\<close>

text \<open>The exceptions the scripts raise, one constructor per message.\<close>

datatype error =
    FechaInvalida
  | FechaFueraDeRango string string
  | InicioPosteriorAFin
  | FormatoDeFechaInvalido
  | NoHayDatosEnElRango
  | FetchFailed
  | TypeError
  | ReferenceError string

text \<open>\<^verbatim>\<open>a < b\<close> and \<^verbatim>\<open>a <= b\<close> on dates: a comparison with an invalid date is false.\<close>

definition date_lt :: "jsdate \<Rightarrow> jsdate \<Rightarrow> bool" where
  "date_lt a b = (case (a, b) of (Some x, Some y) \<Rightarrow> x < y | _ \<Rightarrow> False)"

definition date_le :: "jsdate \<Rightarrow> jsdate \<Rightarrow> bool" where
  "date_le a b = (case (a, b) of (Some x, Some y) \<Rightarrow> x \<le> y | _ \<Rightarrow> False)"

definition validateDate :: "jsdate \<Rightarrow> jsdate \<Rightarrow> jsdate \<Rightarrow> error + unit" where
  "validateDate date minDate maxDate =
     (if date = None then Inl FechaInvalida
      else if date_lt date minDate \<or> date_lt maxDate date
        then Inl (FechaFueraDeRango (formatDate minDate []) (formatDate maxDate []))
      else Inr ())"

text \<open>\<^verbatim>\<open>new Date('2015-01-01')\<close>: midnight UTC.\<close>

definition minDate2015 :: jsdate where
  "minDate2015 = Some 1420070400000"

text \<open>\<^verbatim>\<open>validateDateRange\<close>; \<open>now\<close> is \<^verbatim>\<open>new Date()\<close>.\<close>

definition validateDateRange :: "int \<Rightarrow> jsdate \<Rightarrow> jsdate \<Rightarrow> error + unit" where
  "validateDateRange now startDate endDate =
     (if date_lt endDate startDate then Inl InicioPosteriorAFin
      else case validateDate startDate minDate2015 (Some now) of
             Inl e \<Rightarrow> Inl e
           | Inr _ \<Rightarrow> validateDate endDate minDate2015 (Some now))"

text \<open>\<^verbatim>\<open>s.split(/[\/\-]/)\<close>, for any set of separator characters.\<close>

fun splitOn :: "(char \<Rightarrow> bool) \<Rightarrow> string \<Rightarrow> string list" where
  "splitOn p [] = [[]]"
| "splitOn p (c # cs) =
     (if p c then [] # splitOn p cs
      else case splitOn p cs of [] \<Rightarrow> [[c]] | w # ws \<Rightarrow> (c # w) # ws)"

text \<open>\<^verbatim>\<open>parseInt(s, 10)\<close>: white space, a sign, then decimal digits; NaN when there is no digit.\<close>

definition parseInt10 :: "string \<Rightarrow> int option" where
  "parseInt10 s =
     (let (neg, r) = signOf (dropWhile isStrWhiteSpace s); ds = takeWhile isDigit r
      in if ds = [] then None else Some (if neg then - int (digitsVal ds) else int (digitsVal ds)))"

text \<open>
  \<^verbatim>\<open>parseCustomDate\<close>; \<open>now\<close> is \<^verbatim>\<open>new Date()\<close> and \<open>tza\<close> the offset of the script's
  time zone.
\<close>

definition parseCustomDate :: "int \<Rightarrow> int \<Rightarrow> string \<Rightarrow> error + jsdate" where
  "parseCustomDate tza now dateStr =
     (let parts = splitOn (\<lambda>c. c = CHR ''/'' \<or> c = CHR ''-'') dateStr
      in if length parts < 2 \<or> 3 < length parts then Inl FormatoDeFechaInvalido
         else
           let day = parseInt10 (parts ! 0);
               month = map_option (\<lambda>m. m - 1) (parseInt10 (parts ! 1));
               year = (if length parts = 3
                       then map_option (\<lambda>y. if y < 100 then y + 2000 else y) (parseInt10 (parts ! 2))
                       else Some (YearFromTime (now + tza)));
               date = newDateLocal tza year month day (Some 0) (Some 0) (Some 0)
           in if date = None then Inl FechaInvalida else Inr date)"

section \<open>The sheet of rates and the HTTP cache\<close>

text \<open>
  A cell as \<^verbatim>\<open>getValues\<close> returns it and \<^verbatim>\<open>setValues\<close> takes it. A sheet is the list of
  its rows up to the last row with content, so \<^verbatim>\<open>getLastRow\<close> is its length.
\<close>

datatype cell = CStr string | CDate jsdate | CNum jsnum | CBool bool | CNull | CEmpty

type_synonym row = "cell list"
type_synonym sheet = "row list"

text \<open>What \<^verbatim>\<open>JSON.parse\<close> gives for a response: an array of entries, a falsy value, or another value.\<close>

datatype payload = PArray "entry list" | PFalsy | PNotArray

text \<open>
  The services of the platform that the scripts call and that the source does not define:
  the clock, the script's time zone, \<^verbatim>\<open>Date\<close> applied to text that is not in the ISO format
  (left to the implementation by the language), the sort of a range of rows by its first
  column, the network fetch (\<open>None\<close> when it raises) and \<^verbatim>\<open>JSON.parse\<close> (\<open>None\<close> when it raises).
\<close>

record host =
  hostNow :: int
  hostNowIso :: string
  hostTZA :: int
  hostDateParse :: "string \<Rightarrow> jsdate"
  hostSort :: "row list \<Rightarrow> row list"
  hostFetch :: "string \<Rightarrow> string option"
  hostJsonParse :: "string \<Rightarrow> payload option"

text \<open>
  The script cache, entries \<open>(key, value, expiry)\<close>, and the URLs requested from the network,
  newest first. The stored value \<^verbatim>\<open>JSON.stringify(data)\<close> of a text is represented by the
  text, which \<^verbatim>\<open>JSON.parse\<close> gives back.
\<close>

record net =
  cacheEntries :: "(string \<times> string \<times> int) list"
  fetchLog :: "string list"

definition cacheGet :: "int \<Rightarrow> (string \<times> string \<times> int) list \<Rightarrow> string \<Rightarrow> string option" where
  "cacheGet now entries key =
     map_option (\<lambda>(k, v, e). v) (find (\<lambda>(k, v, e). k = key \<and> now < e) entries)"

definition cachePut ::
  "int \<Rightarrow> (string \<times> string \<times> int) list \<Rightarrow> string \<Rightarrow> string \<Rightarrow> int \<Rightarrow> (string \<times> string \<times> int) list" where
  "cachePut now entries key v ttl = (key, v, now + ttl * 1000) # filter (\<lambda>(k, v, e). k \<noteq> key) entries"

definition getCachedOrFetch :: "host \<Rightarrow> string \<Rightarrow> int \<Rightarrow> net \<Rightarrow> (error + string) \<times> net" where
  "getCachedOrFetch h url cacheTime n =
     (case cacheGet (hostNow h) (cacheEntries n) url of
        Some cached \<Rightarrow> (Inr cached, n)
      | None \<Rightarrow>
          (case hostFetch h url of
             None \<Rightarrow> (Inl FetchFailed, n\<lparr>fetchLog := url # fetchLog n\<rparr>)
           | Some data \<Rightarrow>
               (Inr data, n\<lparr>cacheEntries := cachePut (hostNow h) (cacheEntries n) url data cacheTime,
                              fetchLog := url # fetchLog n\<rparr>)))"

definition API_CURRENT :: string where
  "API_CURRENT = ''https://dolarapi.com/v1/dolares''"

definition API_HISTORICAL :: string where
  "API_HISTORICAL = ''https://api.argentinadatos.com/v1/cotizaciones/dolares/''"

text \<open>
  \<^verbatim>\<open>fetchDataFromApis(date, apiType)\<close>: the parsed payload, or \<open>None\<close> for \<^verbatim>\<open>null\<close>. The call
  \<^verbatim>\<open>getCachedOrFetch(url)\<close> takes the default \<^verbatim>\<open>cacheTime = 3600\<close>.
\<close>

definition fetchDataFromApis :: "host \<Rightarrow> jsdate \<Rightarrow> string \<Rightarrow> net \<Rightarrow> payload option \<times> net" where
  "fetchDataFromApis h date apiType n =
     (let url = (if apiType = ''current'' then API_CURRENT
                 else API_HISTORICAL @ formatDate date ''api'')
      in case getCachedOrFetch h url 3600 n of
           (Inl e, n') \<Rightarrow> (None, n')
         | (Inr response, n') \<Rightarrow>
             if response = [] then (None, n') else (hostJsonParse h response, n'))"

subsection \<open>Rows\<close>

text \<open>
  \<^verbatim>\<open>x.toFixed(2)\<close>: the nearest multiple of 1/100, the larger one on a tie, with two decimals.
  Values of \<open>10\<^sup>2\<^sup>1\<close> and more, which JavaScript prints with an exponent, print in full here.
\<close>

definition toFixed2 :: "jsnum \<Rightarrow> string" where
  "toFixed2 x =
     (case x of NaN \<Rightarrow> ''NaN'' | PInf \<Rightarrow> ''Infinity'' | NInf \<Rightarrow> ''-Infinity''
      | Fin q \<Rightarrow>
          (let ds = showNat (nat \<lfloor>\<bar>q\<bar> * 100 + 1 / 2\<rfloor>);
               ds' = replicate (3 - length ds) (CHR ''0'') @ ds
           in (if q < 0 then ''-'' else []) @ take (length ds' - 2) ds' @ ''.'' @ drop (length ds' - 2) ds'))"

text \<open>\<^verbatim>\<open>s.replace('.', ',')\<close>: the first point only.\<close>

fun replaceDot :: "string \<Rightarrow> string" where
  "replaceDot [] = []"
| "replaceDot (c # cs) = (if c = CHR ''.'' then CHR '','' # cs else c # replaceDot cs)"

definition formatNumber :: "jsnum \<Rightarrow> string" where
  "formatNumber v = replaceDot (toFixed2 v)"

definition formatPercentage :: "jsnum \<Rightarrow> string" where
  "formatPercentage v = replaceDot (toFixed2 (js_mul v (Fin 100))) @ ''%''"

text \<open>
  \<^verbatim>\<open>prepareHistoricalRowData\<close>: \<open>None\<close> for \<^verbatim>\<open>null\<close>, returned for a falsy payload and when
  \<^verbatim>\<open>processHistoricalApiData\<close> raises because the payload is not an array.
\<close>

definition prepareHistoricalRowData :: "host \<Rightarrow> jsdate \<Rightarrow> payload \<Rightarrow> row option" where
  "prepareHistoricalRowData h date p =
     (case p of
        PFalsy \<Rightarrow> None
      | PNotArray \<Rightarrow> None
      | PArray data \<Rightarrow>
          (let v = processHistoricalApiData (hostNowIso h) data;
               currentDateTime = Some (hostNow h)
           in Some [CStr (formatDate date ''dayColumn''),
                    CStr (formatNumber (oficialCompra v)), CStr (formatNumber (oficialVenta v)),
                    CStr (formatNumber (blueCompra v)), CStr (formatNumber (blueVenta v)),
                    CStr (formatNumber (mepCompra v)), CStr (formatNumber (mepVenta v)),
                    CStr (formatNumber (criptoCompra v)), CStr (formatNumber (criptoVenta v)),
                    CStr (formatNumber (mayoristaCompra v)), CStr (formatNumber (mayoristaVenta v)),
                    CStr (formatPercentage (blueOficialBreach v)),
                    CStr (formatPercentage (blueMepBreach v)),
                    CStr (formatDate currentDateTime ''dateTime''),
                    CStr (formatDate currentDateTime ''dateTime'')]))"

text \<open>\<^verbatim>\<open>ToIntegerOrInfinity\<close> of a finite number: the fraction is dropped.\<close>

definition truncRat :: "rat \<Rightarrow> int" where
  "truncRat q = (if 0 \<le> q then \<lfloor>q\<rfloor> else \<lceil>q\<rceil>)"

text \<open>\<^verbatim>\<open>new Date(row[0])\<close> on the first cell of a row as read from the sheet.\<close>

definition firstCell :: "row \<Rightarrow> cell" where
  "firstCell r = (case r of [] \<Rightarrow> CEmpty | c # _ \<Rightarrow> c)"

definition cellToDate :: "host \<Rightarrow> cell \<Rightarrow> jsdate" where
  "cellToDate h c =
     (case c of
        CDate d \<Rightarrow> d
      | CStr s \<Rightarrow> hostDateParse h s
      | CNum n \<Rightarrow> (case n of Fin q \<Rightarrow> timeClip (truncRat q) | _ \<Rightarrow> None)
      | CBool b \<Rightarrow> Some (if b then 1 else 0)
      | CNull \<Rightarrow> Some 0
      | CEmpty \<Rightarrow> None)"

text \<open>The sortable key of a stored row: \<^verbatim>\<open>formatDate(new Date(row[0]), 'sheet')\<close>.\<close>

definition rowKey :: "host \<Rightarrow> row \<Rightarrow> string" where
  "rowKey h r = formatDate (cellToDate h (firstCell r)) ''sheet''"

text \<open>\<^verbatim>\<open>getSheetData(sheet)\<close> with the default start row and column.\<close>

definition getLastColumn :: "sheet \<Rightarrow> nat" where
  "getLastColumn sh = foldr (\<lambda>r m. max (length r) m) sh 0"

definition getSheetData :: "sheet \<Rightarrow> error + sheet" where
  "getSheetData sh = (if length sh < 1 \<or> getLastColumn sh < 1 then Inl NoHayDatosEnElRango else Inr sh)"

text \<open>\<^verbatim>\<open>xs.findIndex(p)\<close>: the first position, from 0, where \<open>p\<close> holds, or -1.\<close>

fun findIndex :: "('a \<Rightarrow> bool) \<Rightarrow> 'a list \<Rightarrow> int" where
  "findIndex p [] = - 1"
| "findIndex p (x # xs) = (if p x then 0 else (let i = findIndex p xs in if i < 0 then - 1 else i + 1))"

text \<open>\<^verbatim>\<open>setValues\<close> of one row of values over a stored row: cells further right are kept.\<close>

definition writeRow :: "row \<Rightarrow> row \<Rightarrow> row" where
  "writeRow new old = new @ drop (length new) old"

subsection \<open>updateHistoricalValues\<close>

text \<open>
  The loop over the days of the range, with the two queues it fills. A day is 86400000
  milliseconds, as \<^verbatim>\<open>setDate(getDate() + 1)\<close> gives in a zone without daylight saving.
\<close>

function collectRows ::
  "host \<Rightarrow> sheet \<Rightarrow> int \<Rightarrow> int \<Rightarrow> (int \<times> row) list \<Rightarrow> row list \<Rightarrow> net
     \<Rightarrow> (int \<times> row) list \<times> row list \<times> net" where
  "collectRows h existingData currentDate endDate rowsToUpdate rowsToAdd n =
     (if currentDate \<le> endDate then
        (case fetchDataFromApis h (Some currentDate) ''historical'' n of
           (None, n') \<Rightarrow>
             collectRows h existingData (currentDate + msPerDay) endDate rowsToUpdate rowsToAdd n'
         | (Some apiResponse, n') \<Rightarrow>
             (case prepareHistoricalRowData h (Some currentDate) apiResponse of
                None \<Rightarrow>
                  collectRows h existingData (currentDate + msPerDay) endDate rowsToUpdate rowsToAdd n'
              | Some rowData \<Rightarrow>
                  (let dateKey = formatDate (Some currentDate) ''sheet''
                   in if dateKey \<in> set (map (rowKey h) existingData)
                      then collectRows h existingData (currentDate + msPerDay) endDate
                             (rowsToUpdate @
                                [(findIndex (\<lambda>r. rowKey h r = dateKey) existingData + 1, rowData)])
                             rowsToAdd n'
                      else collectRows h existingData (currentDate + msPerDay) endDate
                             rowsToUpdate (rowsToAdd @ [rowData]) n')))
      else (rowsToUpdate, rowsToAdd, n))"
  by pat_completeness auto
termination
  by (relation "measure (\<lambda>(h, ex, cur, en, us, ads, n). nat (en - cur + 1))")
     (auto simp: msPerDay_def)

declare collectRows.simps [simp del]

text \<open>
  The \<^verbatim>\<open>forEach\<close> over the queued updates: an update whose row is on the sheet is written in
  place, any other is pushed onto the rows to add.
\<close>

fun applyUpdates :: "(int \<times> row) list \<Rightarrow> sheet \<Rightarrow> row list \<Rightarrow> sheet \<times> row list" where
  "applyUpdates [] sh rowsToAdd = (sh, rowsToAdd)"
| "applyUpdates ((r, data) # us) sh rowsToAdd =
     (if 0 < r \<and> r \<le> int (length sh)
      then applyUpdates us (sh[nat r - 1 := writeRow data (sh ! (nat r - 1))]) rowsToAdd
      else applyUpdates us sh (rowsToAdd @ [data]))"

text \<open>The bulk write of the rows to add below the last row.\<close>

definition appendRows :: "sheet \<Rightarrow> row list \<Rightarrow> sheet" where
  "appendRows sh rowsToAdd = (if 0 < length rowsToAdd then sh @ rowsToAdd else sh)"

text \<open>\<^verbatim>\<open>sortSheetByDate\<close>: the rows below the first are sorted by their first column.\<close>

definition sortSheetByDate :: "host \<Rightarrow> sheet \<Rightarrow> sheet" where
  "sortSheetByDate h sh = (if 1 < length sh then hd sh # hostSort h (tl sh) else sh)"

text \<open>
  The write phase and the two counts that the result message reports:
  \<^verbatim>\<open>rowsToUpdate.length\<close> and \<^verbatim>\<open>rowsToAdd.length\<close>.
\<close>

definition writeRows :: "host \<Rightarrow> (int \<times> row) list \<Rightarrow> row list \<Rightarrow> sheet \<Rightarrow> (nat \<times> nat) \<times> sheet" where
  "writeRows h rowsToUpdate rowsToAdd sh =
     (let (sh1, rowsToAdd1) = applyUpdates rowsToUpdate sh rowsToAdd
      in ((length rowsToUpdate, length rowsToAdd1), sortSheetByDate h (appendRows sh1 rowsToAdd1)))"

text \<open>
  \<^verbatim>\<open>updateHistoricalValues(sheet, startDate, endDate)\<close>: the error of the \<^verbatim>\<open>catch\<close> branch or
  the two counts, with the sheet and the cache as the call leaves them.
\<close>

definition updateHistoricalValues ::
  "host \<Rightarrow> sheet \<Rightarrow> jsdate \<Rightarrow> jsdate \<Rightarrow> net \<Rightarrow> (error + nat \<times> nat) \<times> sheet \<times> net" where
  "updateHistoricalValues h sh startDate endDate n =
     (case validateDate startDate minDate2015 (Some (hostNow h)) of
        Inl e \<Rightarrow> (Inl e, sh, n)
      | Inr _ \<Rightarrow>
     (case validateDate endDate startDate (Some (hostNow h)) of
        Inl e \<Rightarrow> (Inl e, sh, n)
      | Inr _ \<Rightarrow>
     (case getSheetData sh of
        Inl e \<Rightarrow> (Inl e, sh, n)
      | Inr existingData \<Rightarrow>
     (case (startDate, endDate) of
        (Some s, Some e) \<Rightarrow>
          (let (rowsToUpdate, rowsToAdd, n') = collectRows h existingData s e [] [] n;
               (counts, sh') = writeRows h rowsToUpdate rowsToAdd sh
           in (Inr counts, sh', n'))
      | _ \<Rightarrow> (Inl FechaInvalida, sh, n)))))"

subsection \<open>The range action of the menu\<close>

text \<open>What the scripts show to the user or print on the console, one constructor per message.\<close>

datatype ui_event =
    AlertProblemaFechas error
  | AlertActualizacionCompletada nat nat
  | AlertErrorEnLaActualizacion error
  | AlertFormatoIncorrecto
  | AlertConfirmarImportacion nat
  | AlertNoHayDatos
  | AlertImportacionCompletada nat nat
  | AlertErrorEnLaImportacion error
  | ConsoleError error

text \<open>The document (a sheet that does not exist is \<open>None\<close>), the cache and the messages, oldest first.\<close>

record world =
  dolarSheet :: "sheet option"
  custSheet :: "sheet option"
  errorLogSheet :: "sheet option"
  netState :: net
  uiLog :: "ui_event list"

definition updateHistoricalRange :: "host \<Rightarrow> jsdate \<Rightarrow> jsdate \<Rightarrow> world \<Rightarrow> world" where
  "updateHistoricalRange h startDate endDate w =
     (case dolarSheet w of
        None \<Rightarrow> w
      | Some sh \<Rightarrow>
          (let (result, sh', n') = updateHistoricalValues h sh startDate endDate (netState w)
           in w\<lparr>dolarSheet := Some sh', netState := n',
                 uiLog := uiLog w @ [case result of
                                       Inr (u, a) \<Rightarrow> AlertActualizacionCompletada u a
                                     | Inl e \<Rightarrow> AlertErrorEnLaActualizacion e]\<rparr>))"

text \<open>\<^verbatim>\<open>updateDollarsByRange\<close> once the user has entered both texts and pressed OK.\<close>

definition updateDollarsByRange :: "host \<Rightarrow> string \<Rightarrow> string \<Rightarrow> world \<Rightarrow> world" where
  "updateDollarsByRange h startDateStr endDateStr w =
     (case parseCustomDate (hostTZA h) (hostNow h) startDateStr of
        Inl e \<Rightarrow> w\<lparr>uiLog := uiLog w @ [AlertProblemaFechas e]\<rparr>
      | Inr startDate \<Rightarrow>
     (case parseCustomDate (hostTZA h) (hostNow h) endDateStr of
        Inl e \<Rightarrow> w\<lparr>uiLog := uiLog w @ [AlertProblemaFechas e]\<rparr>
      | Inr endDate \<Rightarrow>
     (case validateDateRange (hostNow h) startDate endDate of
        Inl e \<Rightarrow> w\<lparr>uiLog := uiLog w @ [AlertProblemaFechas e]\<rparr>
      | Inr _ \<Rightarrow> updateHistoricalRange h startDate endDate w)))"

section \<open>Import of customers\<close>

text \<open>A \<^verbatim>\<open>DATO\<close> element: its child elements in order, each a name and its text.\<close>

type_synonym xml_entry = "(string \<times> string) list"

definition getChildText :: "xml_entry \<Rightarrow> string \<Rightarrow> string option" where
  "getChildText entry name = map_of entry name"

definition textCell :: "string option \<Rightarrow> cell" where
  "textCell t = (case t of None \<Rightarrow> CNull | Some s \<Rightarrow> CStr s)"

subsection \<open>Conversions\<close>

definition isHexDigit :: "char \<Rightarrow> bool" where
  "isHexDigit c = (isDigit c \<or> (65 \<le> (of_char c :: nat) \<and> (of_char c :: nat) \<le> 70)
                    \<or> (97 \<le> (of_char c :: nat) \<and> (of_char c :: nat) \<le> 102))"

definition hexDigitVal :: "char \<Rightarrow> nat" where
  "hexDigitVal c = (if isDigit c then of_char c - 48
                    else if (of_char c :: nat) \<le> 70 then of_char c - 55 else of_char c - 87)"

definition radixVal :: "nat \<Rightarrow> string \<Rightarrow> nat" where
  "radixVal b ds = foldl (\<lambda>a c. b * a + hexDigitVal c) 0 ds"

text \<open>
  \<^verbatim>\<open>parseInt(s)\<close> with no radix: white space, a sign, then hexadecimal digits after
  \<^verbatim>\<open>0x\<close> and decimal digits otherwise; NaN when there is no digit.
\<close>

definition parseIntAuto :: "string \<Rightarrow> int option" where
  "parseIntAuto s =
     (let (neg, r) = signOf (dropWhile isStrWhiteSpace s);
          hex = (take 2 r = ''0x'' \<or> take 2 r = ''0X'');
          ds = (if hex then takeWhile isHexDigit (drop 2 r) else takeWhile isDigit r);
          v = (if hex then radixVal 16 ds else digitsVal ds)
      in if ds = [] then None else Some (if neg then - int v else int v))"

text \<open>\<^verbatim>\<open>parseInt(entry.getChildText(name))\<close>: a missing element reads as the text \<^verbatim>\<open>null\<close>.\<close>

definition intCell :: "string option \<Rightarrow> cell" where
  "intCell t =
     (case parseIntAuto (case t of None \<Rightarrow> ''null'' | Some s \<Rightarrow> s) of
        None \<Rightarrow> CNum NaN
      | Some i \<Rightarrow> CNum (Fin (of_int i)))"

text \<open>\<^verbatim>\<open>s.toLowerCase()\<close> on the letters A to Z; other characters are kept.\<close>

definition toLowerCase :: "string \<Rightarrow> string" where
  "toLowerCase s =
     map (\<lambda>c. if 65 \<le> (of_char c :: nat) \<and> (of_char c :: nat) \<le> 90
              then char_of ((of_char c :: nat) + 32) else c) s"

text \<open>\<^verbatim>\<open>convertToBoolean\<close>: the method call on \<^verbatim>\<open>null\<close> raises.\<close>

definition convertToBoolean :: "string option \<Rightarrow> error + cell" where
  "convertToBoolean v =
     (case v of None \<Rightarrow> Inl TypeError | Some s \<Rightarrow> Inr (CBool (toLowerCase s = ''verdadero'')))"

text \<open>
  \<^verbatim>\<open>Number(s)\<close> on a string: white space on both sides is dropped; the empty text is 0; the
  rest must be, as a whole, a decimal literal or an unsigned literal in base 16, 8 or 2.
\<close>

definition radixLiteral :: "string \<Rightarrow> nat option" where
  "radixLiteral t =
     (let b = (if take 2 t = ''0x'' \<or> take 2 t = ''0X'' then 16
               else if take 2 t = ''0o'' \<or> take 2 t = ''0O'' then 8
               else if take 2 t = ''0b'' \<or> take 2 t = ''0B'' then 2 else 0);
          ds = drop 2 t
      in if b = 0 \<or> ds = [] \<or> \<not> list_all (\<lambda>c. isHexDigit c \<and> hexDigitVal c < b) ds then None
         else Some (radixVal b ds))"

definition numberOfString :: "string \<Rightarrow> jsnum" where
  "numberOfString s =
     (let t = rev (dropWhile isStrWhiteSpace (rev (dropWhile isStrWhiteSpace s)))
      in if t = [] then Fin 0
         else case radixLiteral t of
                Some v \<Rightarrow> Fin (of_nat v)
              | None \<Rightarrow> (let (v, rest) = readDecimal t in if rest = [] then v else NaN))"

definition js_lt :: "jsnum \<Rightarrow> jsnum \<Rightarrow> bool" where
  "js_lt a b =
     (case (a, b) of
        (Fin x, Fin y) \<Rightarrow> x < y
      | (Fin x, PInf) \<Rightarrow> True
      | (NInf, Fin y) \<Rightarrow> True
      | (NInf, PInf) \<Rightarrow> True
      | _ \<Rightarrow> False)"

definition js_add :: "jsnum \<Rightarrow> jsnum \<Rightarrow> jsnum" where
  "js_add a b =
     (case (a, b) of
        (Fin x, Fin y) \<Rightarrow> Fin (x + y)
      | (NaN, _) \<Rightarrow> NaN
      | (_, NaN) \<Rightarrow> NaN
      | (PInf, NInf) \<Rightarrow> NaN
      | (NInf, PInf) \<Rightarrow> NaN
      | (PInf, _) \<Rightarrow> PInf
      | (_, PInf) \<Rightarrow> PInf
      | _ \<Rightarrow> NInf)"

text \<open>A number as an argument of the \<^verbatim>\<open>Date\<close> constructor: \<open>None\<close> when it is not finite.\<close>

definition toIntegerOpt :: "jsnum \<Rightarrow> int option" where
  "toIntegerOpt x = (case x of Fin q \<Rightarrow> Some (truncRat q) | _ \<Rightarrow> None)"

text \<open>An element of a destructured array: \<^verbatim>\<open>undefined\<close>, NaN in arithmetic, when it is missing.\<close>

definition elemOrNaN :: "jsnum list \<Rightarrow> nat \<Rightarrow> jsnum" where
  "elemOrNaN xs i = (if i < length xs then xs ! i else NaN)"

definition convertToDateTime :: "int \<Rightarrow> string option \<Rightarrow> cell" where
  "convertToDateTime tza dateTimeStr =
     (case dateTimeStr of
        None \<Rightarrow> CNull
      | Some s \<Rightarrow>
          if s = [] then CNull
          else
            let parts = splitOn (\<lambda>c. c = CHR '' '') s
            in if length parts \<noteq> 3 then CNull
               else
                 let dateNums = map numberOfString (splitOn (\<lambda>c. c = CHR ''/'') (parts ! 0));
                     timeNums = map numberOfString (splitOn (\<lambda>c. c = CHR '':'') (parts ! 1));
                     period = parts ! 2;
                     day = elemOrNaN dateNums 0;
                     month = elemOrNaN dateNums 1;
                     year = elemOrNaN dateNums 2;
                     hours = elemOrNaN timeNums 0;
                     minutes = elemOrNaN timeNums 1;
                     seconds = elemOrNaN timeNums 2;
                     adjustedHours =
                       (if toLowerCase period = ''p.m.'' \<and> js_lt hours (Fin 12) then js_add hours (Fin 12)
                        else if toLowerCase period = ''a.m.'' \<and> hours = Fin 12 then Fin 0
                        else hours)
                 in CDate (newDateLocal tza (toIntegerOpt year) (toIntegerOpt (js_sub month (Fin 1)))
                             (toIntegerOpt day) (toIntegerOpt adjustedHours)
                             (toIntegerOpt minutes) (toIntegerOpt seconds)))"

subsection \<open>Rows of customers\<close>

text \<open>The row of one entry; a missing element under \<^verbatim>\<open>convertToBoolean\<close> raises.\<close>

definition customerRow :: "host \<Rightarrow> xml_entry \<Rightarrow> error + row" where
  "customerRow h entry =
     (let t = getChildText entry
      in case (convertToBoolean (t ''ControlaCredito''), convertToBoolean (t ''SF_Moroso''),
               convertToBoolean (t ''SF_Engestionjudicial''), convertToBoolean (t ''SF_Incobrable''),
               convertToBoolean (t ''Habilitado'')) of
           (Inr controlaCredito, Inr moroso, Inr gestionJudicial, Inr incobrable, Inr habilitado) \<Rightarrow>
             Inr [intCell (t ''CodCliente''),
                  textCell (t ''RazonSocialdelCliente''),
                  textCell (t ''TipoDoc''),
                  textCell (t ''NroDocumento''),
                  textCell (t ''Direccion''),
                  textCell (t ''CodPostal''),
                  textCell (t ''Localidad''),
                  textCell (t ''Zona''),
                  textCell (t ''Provincia''),
                  textCell (t ''Pais''),
                  textCell (t ''TipodeCliente''),
                  textCell (t ''CategoriaCliente''),
                  textCell (t ''SubCategoriaCliente''),
                  intCell (t ''CodVendedor''),
                  textCell (t ''Vendedor''),
                  textCell (t ''ListadePrecios''),
                  textCell (t ''CondiciondeVentaPredeterminada''),
                  textCell (t ''SF_FechadeActualizacion''),
                  controlaCredito,
                  textCell (t ''SF_CreditoMaximo''),
                  textCell (t ''SF_PenddeFacturar''),
                  textCell (t ''SF_ChequesenCartera''),
                  textCell (t ''SF_ChequesRechazados''),
                  textCell (t ''SF_CreditoaVencer''),
                  textCell (t ''SF_CreditoVencido''),
                  moroso,
                  gestionJudicial,
                  incobrable,
                  textCell (t ''FechaUltimaCompra''),
                  convertToDateTime (hostTZA h) (t ''FechaUltModificacion''),
                  habilitado]
         | _ \<Rightarrow> Inl TypeError)"

text \<open>\<^verbatim>\<open>entries.map(f)\<close> for an \<open>f\<close> that may raise: the first exception ends the loop.\<close>

fun mapE :: "('a \<Rightarrow> error + 'b) \<Rightarrow> 'a list \<Rightarrow> error + 'b list" where
  "mapE f [] = Inr []"
| "mapE f (x # xs) =
     (case f x of
        Inl e \<Rightarrow> Inl e
      | Inr y \<Rightarrow> (case mapE f xs of Inl e \<Rightarrow> Inl e | Inr ys \<Rightarrow> Inr (y # ys)))"

definition isBlankRow :: "row \<Rightarrow> bool" where
  "isBlankRow r = list_all (\<lambda>c. c = CEmpty \<or> c = CNull \<or> c = CStr []) r"

text \<open>\<^verbatim>\<open>getRange('A2:Q' + lastRow).clearContent()\<close>: columns A to Q of the rows below the first.\<close>

definition clearAQ :: "sheet \<Rightarrow> sheet" where
  "clearAQ sh =
     rev (dropWhile isBlankRow
       (rev (hd sh # map (\<lambda>r. replicate (min 17 (length r)) CEmpty @ drop 17 r) (tl sh))))"

fun overwriteRows :: "row list \<Rightarrow> sheet \<Rightarrow> sheet" where
  "overwriteRows [] old = old"
| "overwriteRows (d # ds) [] = d # overwriteRows ds []"
| "overwriteRows (d # ds) (r # rs) = writeRow d r # overwriteRows ds rs"

text \<open>\<^verbatim>\<open>getRange(2, 1, data.length, data[0].length).setValues(data)\<close>\<close>

definition setValuesFromRow2 :: "row list \<Rightarrow> sheet \<Rightarrow> sheet" where
  "setValuesFromRow2 data sh =
     (case sh of [] \<Rightarrow> [] # data | r1 # rest \<Rightarrow> r1 # overwriteRows data rest)"

text \<open>
  \<^verbatim>\<open>importXMLFileDataCust\<close>: the rows, or the exception of the conversion, which is raised
  after the old content was cleared. Deleting the empty rows below the data changes no cell.
\<close>

definition importXMLFileDataCust :: "host \<Rightarrow> xml_entry list \<Rightarrow> world \<Rightarrow> (error + row list) \<times> world" where
  "importXMLFileDataCust h entries w =
     (let sheetCust = (case custSheet w of Some sh \<Rightarrow> sh | None \<Rightarrow> []);
          cleared = (if 1 < length sheetCust then clearAQ sheetCust else sheetCust)
      in case mapE (customerRow h) entries of
           Inl e \<Rightarrow> (Inl e, w\<lparr>custSheet := Some cleared\<rparr>)
         | Inr data \<Rightarrow>
             if 0 < length data
             then (Inr data, w\<lparr>custSheet := Some (setValuesFromRow2 data cleared)\<rparr>)
             else (Inr [], w\<lparr>custSheet := Some cleared, uiLog := uiLog w @ [AlertNoHayDatos]\<rparr>))"

text \<open>\<^verbatim>\<open>findDuplicatesCust\<close>: the two sets as lists in insertion order.\<close>

fun dupScan :: "'a list \<Rightarrow> 'a list \<Rightarrow> 'a list \<Rightarrow> 'a list" where
  "dupScan [] seen duplicates = duplicates"
| "dupScan (v # vs) seen duplicates =
     (if v \<in> set seen
      then dupScan vs seen (if v \<in> set duplicates then duplicates else duplicates @ [v])
      else dupScan vs (seen @ [v]) duplicates)"

definition findDuplicatesCust :: "'a list \<Rightarrow> 'a list" where
  "findDuplicatesCust vs = dupScan vs [] []"

text \<open>The text of an exception; that of a failed fetch or method call is the platform's.\<close>

definition errorMessage :: "error \<Rightarrow> string" where
  "errorMessage e =
     (case e of
        FechaInvalida \<Rightarrow> ''Fecha inv'' @ [CHR 0xE1] @ ''lida''
      | FechaFueraDeRango a b \<Rightarrow> ''La fecha debe estar entre '' @ a @ '' y '' @ b
      | InicioPosteriorAFin \<Rightarrow> ''La fecha de inicio debe ser anterior o igual a la fecha de fin.''
      | FormatoDeFechaInvalido \<Rightarrow> ''Formato de fecha inv'' @ [CHR 0xE1] @ ''lido. Use dd/mm o dd/mm/yy.''
      | NoHayDatosEnElRango \<Rightarrow>
          ''Error al obtener datos de la hoja: No hay datos en el rango especificado''
      | FetchFailed \<Rightarrow> ''Request failed''
      | TypeError \<Rightarrow> ''Cannot read properties of null''
      | ReferenceError x \<Rightarrow> x @ '' is not defined'')"

text \<open>\<^verbatim>\<open>logErrorCust\<close>: a row on the sheet of errors when that sheet exists.\<close>

definition logErrorCust :: "host \<Rightarrow> error \<Rightarrow> world \<Rightarrow> world" where
  "logErrorCust h e w =
     (case errorLogSheet w of
        None \<Rightarrow> w
      | Some sh \<Rightarrow> w\<lparr>errorLogSheet := Some (sh @ [[CDate (Some (hostNow h)), CStr (errorMessage e)]])\<rparr>)"

text \<open>The \<^verbatim>\<open>catch\<close> branch of \<^verbatim>\<open>prepareAndImportXMLFileCust\<close>.\<close>

definition importFailed :: "host \<Rightarrow> error \<Rightarrow> world \<Rightarrow> int option \<times> world" where
  "importFailed h e w =
     (Some 0, logErrorCust h e (w\<lparr>uiLog := uiLog w @ [AlertErrorEnLaImportacion e, ConsoleError e]\<rparr>))"

text \<open>
  \<^verbatim>\<open>prepareAndImportXMLFileCust\<close> on the \<^verbatim>\<open>DATO\<close> elements of the parsed file; \<open>yes\<close> is the
  user's answer to the confirmation; the result \<open>None\<close> is \<^verbatim>\<open>undefined\<close>. The name
  \<^verbatim>\<open>sheetCust\<close> is bound in \<^verbatim>\<open>importXMLFileDataCust\<close> only, so evaluating it here raises.
\<close>

definition prepareAndImportXMLFileCust ::
  "host \<Rightarrow> xml_entry list \<Rightarrow> bool \<Rightarrow> world \<Rightarrow> int option \<times> world" where
  "prepareAndImportXMLFileCust h entries yes w =
     (if (case entries of [] \<Rightarrow> False | firstEntry # _ \<Rightarrow> length firstEntry \<noteq> 31)
      then (None, w\<lparr>uiLog := uiLog w @ [AlertFormatoIncorrecto]\<rparr>)
      else
        let w1 = w\<lparr>uiLog := uiLog w @ [AlertConfirmarImportacion (length entries)]\<rparr>
        in if \<not> yes then (None, w1)
           else
             case importXMLFileDataCust h entries w1 of
               (Inl e, w2) \<Rightarrow> importFailed h e w2
             | (Inr importedData, w2) \<Rightarrow>
                 (let duplicates = findDuplicatesCust (map firstCell importedData)
                  in if 0 < length duplicates then importFailed h (ReferenceError ''sheetCust'') w2
                     else (Some (int (length importedData)),
                           w2\<lparr>uiLog := uiLog w2 @
                                 [AlertImportacionCompletada (length importedData) (length duplicates)]\<rparr>)))"

section \<open>Notions of the specification\<close>

text \<open>The spread of the specification: \<open>(b - x) / x\<close>, and 0 when \<open>x\<close> is 0.\<close>

definition spread :: "jsnum \<Rightarrow> jsnum \<Rightarrow> jsnum" where
  "spread b x = (if x = Fin 0 then Fin 0 else js_div (js_sub b x) x)"

text \<open>
  The civil-time projection of the specification: the fields of an instant read in UTC,
  each NaN (\<open>None\<close>) for an invalid date, and their rendering in a format mode.
\<close>

record civil_time =
  ctYear :: "int option"
  ctMonth :: "int option"
  ctDay :: "int option"
  ctHours :: "int option"
  ctMinutes :: "int option"
  ctSeconds :: "int option"
  ctWeekDay :: "int option"

definition utcFields :: "jsdate \<Rightarrow> civil_time" where
  "utcFields d =
     \<lparr> ctYear = map_option (\<lambda>t. fst (civil_from_days (t div 86400000))) d,
       ctMonth = map_option (\<lambda>t. fst (snd (civil_from_days (t div 86400000)))) d,
       ctDay = map_option (\<lambda>t. snd (snd (civil_from_days (t div 86400000)))) d,
       ctHours = map_option (\<lambda>t. (t div 3600000) mod 24) d,
       ctMinutes = map_option (\<lambda>t. (t div 60000) mod 60) d,
       ctSeconds = map_option (\<lambda>t. (t div 1000) mod 60) d,
       ctWeekDay = map_option (\<lambda>t. (t div 86400000 + 4) mod 7) d \<rparr>"

definition renderCivil :: "civil_time \<Rightarrow> string \<Rightarrow> string" where
  "renderCivil c mode =
     (let dd = pad2 (ctDay c); mm = pad2 (ctMonth c);
          yyyy = numToString (ctYear c); yy = sliceLast2 yyyy;
          time = pad2 (ctHours c) @ '':'' @ pad2 (ctMinutes c) @ '':'' @ pad2 (ctSeconds c);
          weekday = nameAt daysOfWeek (ctWeekDay c);
          monthName = nameAt months (map_option (\<lambda>m. m - 1) (ctMonth c))
      in if mode = ''verbose'' then weekday @ '' '' @ dd @ '' de '' @ monthName @ '' de '' @ yyyy
         else if mode = ''sheet'' then yyyy @ ''-'' @ mm @ ''-'' @ dd
         else if mode = ''api'' then yyyy @ ''/'' @ mm @ ''/'' @ dd
         else if mode = ''dateTime'' then dd @ ''/'' @ mm @ ''/'' @ yy @ '' '' @ time
         else if mode = ''verboseLong'' then weekday @ '' '' @ dd @ '' de '' @ monthName @ '' '' @ time
         else if mode = ''dayColumn'' then weekday @ '' '' @ dd @ ''/'' @ mm @ ''/'' @ yyyy
         else if mode = ''fullLong'' then weekday @ '' '' @ dd @ ''-'' @ mm @ ''-'' @ yy
         else if mode = ''time'' then time
         else if mode = ''fullLongWithTime'' then weekday @ '' '' @ dd @ ''-'' @ mm @ ''-'' @ yy @ '' '' @ time
         else dd @ ''/'' @ mm @ ''/'' @ yyyy)"

text \<open>What the proofs below assume of the sort of a range: it only reorders its rows.\<close>

definition sortPermutes :: "host \<Rightarrow> bool" where
  "sortPermutes h = (\<forall>rs. mset (hostSort h rs) = mset rs)"

text \<open>The same host at a later reading of the clock.\<close>

definition laterHost :: "host \<Rightarrow> int \<Rightarrow> string \<Rightarrow> host" where
  "laterHost h now nowIso = h\<lparr>hostNow := now, hostNowIso := nowIso\<rparr>"

text \<open>An update that the write phase cannot apply in place: its row is not on the sheet.\<close>

definition offSheet :: "sheet \<Rightarrow> int \<times> row \<Rightarrow> bool" where
  "offSheet sh u = (\<not> (0 < fst u \<and> fst u \<le> int (length sh)))"

section \<open>Example inputs\<close>

text \<open>A payload with an official and a blue rate, and the text of the response that carries it.\<close>

definition exPayload :: "entry list" where
  "exPayload = [mkEntry ''oficial'' (JNum (Fin 990)) (JNum (Fin 1000)),
                mkEntry ''blue'' (JNum (Fin 1480)) (JNum (Fin 1500))]"

definition exResponse :: string where
  "exResponse = ''[oficial 990 1000, blue 1480 1500]''"

text \<open>
  The date that the runtime of the scripts gives to a text made of a word that its date
  syntax does not know, a space, and three numbers separated by \<^verbatim>\<open>/\<close>: the numbers are
  month, day and year (year, month and day when the first is not a day of a month), a year
  below 50 is in 2000 and one below 100 in 1900, and the result is that local midnight, or
  an invalid date when the month is not 1 to 12 or the day not 1 to 31. A word that begins
  with the three letters of an English month, as \<^verbatim>\<open>Martes\<close> does, is read as that month by the
  runtime: such a text and every other text are outside this description and taken as
  invalid, as the header \<^verbatim>\<open>Fecha\<close> and the empty text are.
\<close>

definition monthWord :: "string \<Rightarrow> bool" where
  "monthWord w = (take 3 (toLowerCase w) \<in> set [''jan'', ''feb'', ''mar'', ''apr'', ''may'', ''jun'',
     ''jul'', ''aug'', ''sep'', ''oct'', ''nov'', ''dec''])"

definition runtimeDateParse :: "int \<Rightarrow> string \<Rightarrow> jsdate" where
  "runtimeDateParse tza s =
     (let parts = splitOn (\<lambda>c. c = CHR '' '') s
      in if length parts \<noteq> 2 then None
         else
           let w = parts ! 0; f = splitOn (\<lambda>c. c = CHR ''/'') (parts ! 1)
           in if length w \<le> 3 \<or> monthWord w \<or> list_ex (\<lambda>c. (of_char c :: nat) < 65) w then None
              else if length f \<noteq> 3 \<or> list_ex (\<lambda>t. t = [] \<or> list_ex (\<lambda>c. \<not> isDigit c) t) f then None
              else
                let a = int (digitsVal (f ! 0)); b = int (digitsVal (f ! 1));
                    c = int (digitsVal (f ! 2));
                    ymd = (a < 1 \<or> 31 < a);
                    y0 = (if ymd then a else c);
                    month = (if ymd then b else a);
                    day = (if ymd then c else b);
                    year = (if y0 < 50 then y0 + 2000 else if y0 < 100 then y0 + 1900 else y0)
                in if month < 1 \<or> 12 < month \<or> day < 1 \<or> 31 < day then None
                   else newDateLocal tza (Some year) (Some (month - 1)) (Some day)
                          (Some 0) (Some 0) (Some 0))"

text \<open>
  A host on 2024-04-01T00:00:00Z in Argentina: the API has data for 2024-03-15 only, and
  the sort leaves the rows as they are.
\<close>

definition exHost :: host where
  "exHost = \<lparr> hostNow = 1711929600000, hostNowIso = ''2024-04-01T00:00:00.000Z'',
               hostTZA = - 10800000, hostDateParse = runtimeDateParse (- 10800000), hostSort = (\<lambda>rs. rs),
               hostFetch = (\<lambda>url. if url = API_HISTORICAL @ ''2024/03/15'' then Some exResponse else None),
               hostJsonParse = (\<lambda>t. if t = exResponse then Some (PArray exPayload) else None) \<rparr>"

definition exNet :: net where
  "exNet = \<lparr> cacheEntries = [], fetchLog = [] \<rparr>"

text \<open>Midnight of 2024-03-15 in Argentina.\<close>

definition exDay :: int where
  "exDay = 1710471600000"

text \<open>The header of the sheet of rates and a sheet with one stored day, 2024-03-14.\<close>

definition exHeader :: row where
  "exHeader = map CStr [''Fecha'', ''Oficial Compra'', ''Oficial Venta'', ''Blue Compra'', ''Blue Venta'',
     ''MEP Compra'', ''MEP Venta'', ''Cripto Compra'', ''Cripto Venta'', ''Mayorista Compra'',
     ''Mayorista Venta'', ''Brecha Blue/Oficial'', ''Brecha Blue/MEP'',
     [CHR 0xDA] @ ''ltima Actualizaci'' @ [CHR 0xF3] @ ''n'', ''Fecha de Modificaci'' @ [CHR 0xF3] @ ''n'']"

definition exSheet :: sheet where
  "exSheet = [exHeader, [CDate (Some 1710385200000), CNum (Fin 985), CNum (Fin 995)]]"

text \<open>A sheet that stores the day 2024-03-10 twice.\<close>

definition dupSheet :: sheet where
  "dupSheet = [exHeader, [CDate (Some 1710039600000), CNum (Fin 980)],
               [CDate (Some 1710039600000), CNum (Fin 981)]]"

definition exWorld :: world where
  "exWorld = \<lparr> dolarSheet = Some exSheet, custSheet = Some [[CStr ''CodCliente'']],
                errorLogSheet = None, netState = exNet, uiLog = [] \<rparr>"

text \<open>The 29 elements of a customer after its code and its name, and customers built from them.\<close>

definition custFields :: "string list" where
  "custFields = [''TipoDoc'', ''NroDocumento'', ''Direccion'', ''CodPostal'', ''Localidad'', ''Zona'',
     ''Provincia'', ''Pais'', ''TipodeCliente'', ''CategoriaCliente'', ''SubCategoriaCliente'',
     ''CodVendedor'', ''Vendedor'', ''ListadePrecios'', ''CondiciondeVentaPredeterminada'',
     ''SF_FechadeActualizacion'', ''ControlaCredito'', ''SF_CreditoMaximo'', ''SF_PenddeFacturar'',
     ''SF_ChequesenCartera'', ''SF_ChequesRechazados'', ''SF_CreditoaVencer'', ''SF_CreditoVencido'',
     ''SF_Moroso'', ''SF_Engestionjudicial'', ''SF_Incobrable'', ''FechaUltimaCompra'',
     ''FechaUltModificacion'', ''Habilitado'']"

definition mkCustomer :: "string \<Rightarrow> string \<Rightarrow> xml_entry" where
  "mkCustomer code name =
     (''CodCliente'', code) # (''RazonSocialdelCliente'', name) # map (\<lambda>f. (f, ''Falso'')) custFields"


definition exBadEntries :: "xml_entry list" where
  "exBadEntries = [mkCustomer ''4521'' ''A'', filter (\<lambda>(f, t). f \<noteq> ''Pais'') (mkCustomer ''4522'' ''B'')]"

text \<open>
  Two runs over the single day 2024-03-15 on the example sheet, the second a minute later
  on the sheet and the cache that the first has left.
\<close>

definition exRun1 :: "(error + nat \<times> nat) \<times> sheet \<times> net" where
  "exRun1 = updateHistoricalValues exHost exSheet (Some exDay) (Some exDay) exNet"

definition exRun2 :: "(error + nat \<times> nat) \<times> sheet \<times> net" where
  "exRun2 = updateHistoricalValues (laterHost exHost 1711929660000 ''2024-04-01T00:01:00.000Z'')
              (fst (snd exRun1)) (Some exDay) (Some exDay) (snd (snd exRun1))"

section \<open>Properties of the normalizers\<close>

lemma find_none_no_entry:
  "(\<forall>d \<in> set data. casa d \<noteq> JStr name) \<Longrightarrow> find (\<lambda>d. casa d = JStr name) data = None"
  by (induction data) auto

lemma or_zero_not_NaN: "or_zero x \<noteq> NaN"
  by (simp add: or_zero_def)

lemma or_zero_non_numeric: "parseFloat v = NaN \<Longrightarrow> or_zero (parseFloat v) = Fin 0"
  by (simp add: or_zero_def)

text \<open>No price of the historical normalizer is NaN: a value that does not parse reads as 0.\<close>

lemma historical_prices_not_NaN:
  "oficialCompra (processHistoricalApiData now data) \<noteq> NaN"
  "oficialVenta (processHistoricalApiData now data) \<noteq> NaN"
  "blueCompra (processHistoricalApiData now data) \<noteq> NaN"
  "blueVenta (processHistoricalApiData now data) \<noteq> NaN"
  "mepCompra (processHistoricalApiData now data) \<noteq> NaN"
  "mepVenta (processHistoricalApiData now data) \<noteq> NaN"
  "criptoCompra (processHistoricalApiData now data) \<noteq> NaN"
  "criptoVenta (processHistoricalApiData now data) \<noteq> NaN"
  "mayoristaCompra (processHistoricalApiData now data) \<noteq> NaN"
  "mayoristaVenta (processHistoricalApiData now data) \<noteq> NaN"
  by (simp_all add: processHistoricalApiData_def Let_def compraOr0_def ventaOr0_def or_zero_not_NaN)

text \<open>A payload with no entry named \<^verbatim>\<open>cripto\<close> gives zeros in both normalizers.\<close>

lemma missing_cripto_is_zero:
  assumes "\<forall>d \<in> set data. casa d \<noteq> JStr ''cripto''"
  shows "criptoCompra (processCurrentApiData now data) = Fin 0"
    and "criptoVenta (processCurrentApiData now data) = Fin 0"
    and "criptoCompra (processHistoricalApiData now data) = Fin 0"
    and "criptoVenta (processHistoricalApiData now data) = Fin 0"
  using find_none_no_entry [OF assms]
  by (simp_all add: processCurrentApiData_def processHistoricalApiData_def Let_def findValue_def
        compraOr0_def ventaOr0_def parseFloat_def or_zero_def)

text \<open>
  C2, as the code has it. The historical normalizer computes both spreads as the
  specification defines them, \<open>(blue.venta - x.venta) / x.venta\<close> and 0 for a zero
  denominator. The current normalizer computes 100 times that ratio whenever the
  denominator is not zero.
\<close>

theorem spreads_of_the_normalizers:
  "blueOficialBreach (processHistoricalApiData now data)
     = spread (blueVenta (processHistoricalApiData now data))
              (oficialVenta (processHistoricalApiData now data))
   \<and> blueMepBreach (processHistoricalApiData now data)
     = spread (blueVenta (processHistoricalApiData now data))
              (mepVenta (processHistoricalApiData now data))
   \<and> (oficialVenta (processCurrentApiData now data) \<noteq> Fin 0 \<longrightarrow>
        blueOficialBreach (processCurrentApiData now data)
          = js_mul (spread (blueVenta (processCurrentApiData now data))
                           (oficialVenta (processCurrentApiData now data))) (Fin 100))
   \<and> (mepVenta (processCurrentApiData now data) \<noteq> Fin 0 \<longrightarrow>
        blueMepBreach (processCurrentApiData now data)
          = js_mul (spread (blueVenta (processCurrentApiData now data))
                           (mepVenta (processCurrentApiData now data))) (Fin 100))"
  by (simp add: processHistoricalApiData_def processCurrentApiData_def Let_def spread_def)

lemma exPayload_current_ventas:
  "oficialVenta (processCurrentApiData now exPayload) = Fin 1000"
  "blueVenta (processCurrentApiData now exPayload) = Fin 1500"
  by (simp_all add: processCurrentApiData_def findValue_def mkEntry_def parseFloat_def exPayload_def)

lemma exPayload_historical_ventas:
  "oficialVenta (processHistoricalApiData now exPayload) = Fin 1000"
  "blueVenta (processHistoricalApiData now exPayload) = Fin 1500"
  by (simp_all add: processHistoricalApiData_def Let_def ventaOr0_def or_zero_def mkEntry_def
        parseFloat_def exPayload_def)

theorem spreads_of_the_normalizers_witness:
  "oficialVenta (processCurrentApiData ''2024-04-01T00:00:00.000Z'' exPayload) \<noteq> Fin 0
   \<and> blueOficialBreach (processCurrentApiData ''2024-04-01T00:00:00.000Z'' exPayload) = Fin 50
   \<and> blueOficialBreach (processHistoricalApiData ''2024-04-01T00:00:00.000Z'' exPayload) = Fin (1 / 2)"
  using spreads_of_the_normalizers [of "''2024-04-01T00:00:00.000Z''" exPayload]
  by (simp add: exPayload_current_ventas exPayload_historical_ventas spread_def)

text \<open>
  C2 as it is stated fails: for official sell 1000 and blue sell 1500 the current
  normalizer gives 50, not 0.5.
\<close>

theorem current_spread_is_a_percentage:
  "blueOficialBreach (processCurrentApiData ''2024-04-01T00:00:00.000Z'' exPayload) \<noteq> Fin (1 / 2)"
  by (simp add: processCurrentApiData_def findValue_def mkEntry_def parseFloat_def exPayload_def)

text \<open>
  C3 at its failing input: an official entry whose prices are \<^verbatim>\<open>null\<close> and a text that is
  not a number. The current normalizer keeps NaN for both; the historical one gives 0.
\<close>

theorem current_keeps_non_numeric_prices:
  "oficialCompra (processCurrentApiData ''2024-04-01T00:00:00.000Z'' [mkEntry ''oficial'' JNull (JStr ''s/c'')]) = NaN
   \<and> oficialVenta (processCurrentApiData ''2024-04-01T00:00:00.000Z'' [mkEntry ''oficial'' JNull (JStr ''s/c'')]) = NaN
   \<and> oficialCompra (processHistoricalApiData ''2024-04-01T00:00:00.000Z'' [mkEntry ''oficial'' JNull (JStr ''s/c'')]) = Fin 0
   \<and> oficialVenta (processHistoricalApiData ''2024-04-01T00:00:00.000Z'' [mkEntry ''oficial'' JNull (JStr ''s/c'')]) = Fin 0"
  by code_simp

section \<open>Properties of dates\<close>

text \<open>
  C6. For every date, valid or not, and every format, \<^verbatim>\<open>formatDate\<close> is the rendering of
  the UTC fields of the instant moved back by exactly three hours (10800000 milliseconds),
  with no other adjustment; and the instant 2024-03-15T02:00:00Z in mode \<^verbatim>\<open>dateTime\<close>
  gives \<^verbatim>\<open>14/03/24 23:00:00\<close>.
\<close>

theorem formatDate_civil_projection:
  "formatDate d fmt
     = renderCivil (utcFields (newDate (map_option (\<lambda>t. t - 10800000) d)))
         (if fmt = [] then ''short'' else fmt)
   \<and> formatDate (Some 1710468000000) ''dateTime'' = ''14/03/24 23:00:00''"
proof
  show "formatDate d fmt
     = renderCivil (utcFields (newDate (map_option (\<lambda>t. t - 10800000) d)))
         (if fmt = [] then ''short'' else fmt)"
    by (cases "newDate (map_option (\<lambda>t. t - 10800000) d)")
       (simp_all add: formatDate_def renderCivil_def utcFields_def Let_def YearFromTime_def
          MonthFromTime_def DateFromTime_def HourFromTime_def MinFromTime_def SecFromTime_def
          WeekDay_def Day_def msPerDay_def)
  show "formatDate (Some 1710468000000) ''dateTime'' = ''14/03/24 23:00:00''"
    by code_simp
qed

text \<open>A text that does not split into two or three tokens is refused.\<close>

lemma parseCustomDate_token_count:
  assumes "length (splitOn (\<lambda>c. c = CHR ''/'' \<or> c = CHR ''-'') s) < 2
           \<or> 3 < length (splitOn (\<lambda>c. c = CHR ''/'' \<or> c = CHR ''-'') s)"
  shows "parseCustomDate tza now s = Inl FormatoDeFechaInvalido"
  using assms by (simp add: parseCustomDate_def Let_def)

text \<open>
  With the year 2024 as the current one: a missing year, a year of two digits and either
  separator give the same day; one token, four tokens and tokens that are not numbers are
  refused.
\<close>

lemma parseCustomDate_examples:
  "parseCustomDate (- 10800000) 1711929600000 ''15-03'' = Inr (Some 1710471600000)"
  "parseCustomDate (- 10800000) 1711929600000 ''15/03/24'' = Inr (Some 1710471600000)"
  "parseCustomDate (- 10800000) 1711929600000 ''15-03-2024'' = Inr (Some 1710471600000)"
  "parseCustomDate (- 10800000) 1711929600000 ''15'' = Inl FormatoDeFechaInvalido"
  "parseCustomDate (- 10800000) 1711929600000 ''1/2/3/4'' = Inl FormatoDeFechaInvalido"
  "parseCustomDate (- 10800000) 1711929600000 ''ab/cd'' = Inl FechaInvalida"
  by code_simp+

text \<open>
  C5 at its failing input: 31 April is not rejected. The result is a valid date, midnight
  of 1 May 2024 in Argentina.
\<close>

theorem parseCustomDate_rolls_over:
  "parseCustomDate (- 10800000) 1711929600000 ''31/04/2024'' = Inr (Some 1714532400000)
   \<and> formatDate (Some 1714532400000) ''sheet'' = ''2024-05-01''"
  by code_simp

section \<open>Properties of the cache client\<close>

text \<open>A cached entry that has not expired is returned and nothing is fetched or stored.\<close>

lemma getCachedOrFetch_hit:
  "cacheGet (hostNow h) (cacheEntries n) url = Some v \<Longrightarrow> getCachedOrFetch h url ttl n = (Inr v, n)"
  by (simp add: getCachedOrFetch_def)

text \<open>On a miss the URL is fetched once; a response is stored until \<open>ttl\<close> seconds from now.\<close>

lemma getCachedOrFetch_miss:
  assumes "cacheGet (hostNow h) (cacheEntries n) url = None" and "hostFetch h url = Some data"
  shows "getCachedOrFetch h url ttl n
           = (Inr data, \<lparr> cacheEntries = (url, data, hostNow h + ttl * 1000)
                                          # filter (\<lambda>(k, v, e). k \<noteq> url) (cacheEntries n),
                          fetchLog = url # fetchLog n \<rparr>)"
  using assms by (simp add: getCachedOrFetch_def cachePut_def)

text \<open>The caller turns the exception of a failed fetch into \<^verbatim>\<open>null\<close>.\<close>

lemma fetchDataFromApis_null_on_failure:
  assumes "getCachedOrFetch h (API_HISTORICAL @ formatDate date ''api'') 3600 n = (Inl e, n')"
  shows "fetchDataFromApis h date ''historical'' n = (None, n')"
  using assms by (simp add: fetchDataFromApis_def Let_def)

text \<open>
  C7 at its failing input: an empty cache and a fetch that raises. The exception leaves
  \<^verbatim>\<open>getCachedOrFetch\<close>; no \<^verbatim>\<open>null\<close> is returned.
\<close>

theorem getCachedOrFetch_raises_on_failed_fetch:
  "getCachedOrFetch exHost (API_HISTORICAL @ ''2024/03/16'') 3600 exNet
     = (Inl FetchFailed, \<lparr> cacheEntries = [], fetchLog = [API_HISTORICAL @ ''2024/03/16''] \<rparr>)"
  by code_simp

section \<open>Properties of the range validation\<close>

text \<open>
  C4. When the start is after the end, or either date is before 2015-01-01 or after now,
  \<^verbatim>\<open>updateHistoricalValues\<close> returns an error and leaves the sheet and the cache as they
  were; and on the path of \<^verbatim>\<open>updateDollarsByRange\<close>, for texts that parse to such dates,
  the only effect is the alert with the error.
\<close>

theorem invalid_range_writes_nothing:
  assumes "e < s \<or> s < 1420070400000 \<or> hostNow h < s \<or> e < 1420070400000 \<or> hostNow h < e"
  shows "(\<exists>err. updateHistoricalValues h sh (Some s) (Some e) n = (Inl err, sh, n))
       \<and> (parseCustomDate (hostTZA h) (hostNow h) a = Inr (Some s)
            \<and> parseCustomDate (hostTZA h) (hostNow h) b = Inr (Some e)
          \<longrightarrow> (\<exists>err. updateDollarsByRange h a b w = w\<lparr>uiLog := uiLog w @ [AlertProblemaFechas err]\<rparr>))"
proof
  show "\<exists>err. updateHistoricalValues h sh (Some s) (Some e) n = (Inl err, sh, n)"
    using assms
    by (auto simp: updateHistoricalValues_def validateDate_def minDate2015_def date_lt_def)
  show "parseCustomDate (hostTZA h) (hostNow h) a = Inr (Some s)
            \<and> parseCustomDate (hostTZA h) (hostNow h) b = Inr (Some e)
          \<longrightarrow> (\<exists>err. updateDollarsByRange h a b w = w\<lparr>uiLog := uiLog w @ [AlertProblemaFechas err]\<rparr>)"
    using assms
    by (auto simp: updateDollarsByRange_def validateDateRange_def validateDate_def minDate2015_def
          date_lt_def)
qed

theorem invalid_range_writes_nothing_witness:
  "(\<exists>err. updateHistoricalValues exHost exSheet (Some 1710903600000) (Some 1710039600000) exNet
            = (Inl err, exSheet, exNet))
   \<and> (\<exists>err. updateDollarsByRange exHost ''20/03/2024'' ''10/03/2024'' exWorld
            = exWorld\<lparr>uiLog := uiLog exWorld @ [AlertProblemaFechas err]\<rparr>)"
proof -
  have a: "parseCustomDate (hostTZA exHost) (hostNow exHost) ''20/03/2024'' = Inr (Some 1710903600000)"
    by code_simp
  have b: "parseCustomDate (hostTZA exHost) (hostNow exHost) ''10/03/2024'' = Inr (Some 1710039600000)"
    by code_simp
  show ?thesis
    using invalid_range_writes_nothing [of 1710039600000 1710903600000 exHost exSheet exNet
        "''20/03/2024''" "''10/03/2024''" exWorld] a b
    by simp
qed

section \<open>Properties of the import of customers\<close>

text \<open>
  C8, as the code has it. When the first record of the file does not have exactly 31
  child elements, the import shows the format alert and changes nothing else, whatever
  the user would answer.
\<close>

theorem first_record_gate:
  assumes "entries = firstEntry # rest" and "length firstEntry \<noteq> 31"
  shows "prepareAndImportXMLFileCust h entries yes w
           = (None, w\<lparr>uiLog := uiLog w @ [AlertFormatoIncorrecto]\<rparr>)"
  using assms by (simp add: prepareAndImportXMLFileCust_def)

theorem first_record_gate_witness:
  "prepareAndImportXMLFileCust exHost [[(''CodCliente'', ''4521'')]] True exWorld
     = (None, exWorld\<lparr>uiLog := uiLog exWorld @ [AlertFormatoIncorrecto]\<rparr>)"
  using first_record_gate [of "[[(''CodCliente'', ''4521'')]]" "[(''CodCliente'', ''4521'')]" "[]" exHost True exWorld]
  by simp

text \<open>
  C8 as it is stated fails: the records after the first are not checked. A file whose second
  record has 30 elements is imported, and its two rows are written below the header.
\<close>

theorem later_record_is_not_checked:
  "length (exBadEntries ! 1) \<noteq> 31
   \<and> fst (prepareAndImportXMLFileCust exHost exBadEntries True exWorld) = Some 2
   \<and> map_option length (custSheet (snd (prepareAndImportXMLFileCust exHost exBadEntries True exWorld))) = Some 3
   \<and> map_option length (custSheet exWorld) = Some 1"
  by code_simp



lemma mapE_length: "mapE f xs = Inr ys \<Longrightarrow> length ys = length xs"
  by (induction xs arbitrary: ys) (auto split: sum.splits)



section \<open>Properties of the write phase\<close>

lemma applyUpdates_result:
  "applyUpdates us sh adds = (sh', adds')
     \<Longrightarrow> length sh' = length sh \<and> adds' = adds @ map snd (filter (offSheet sh) us)"
proof (induction us arbitrary: sh adds)
  case Nil
  then show ?case by simp
next
  case (Cons u us)
  obtain r data where u: "u = (r, data)" by (cases u)
  show ?case
  proof (cases "0 < r \<and> r \<le> int (length sh)")
    case True
    with Cons.prems u
    have "applyUpdates us (sh[nat r - 1 := writeRow data (sh ! (nat r - 1))]) adds = (sh', adds')"
      by simp
    from Cons.IH [OF this] True u show ?thesis
      by (simp add: offSheet_def)
  next
    case False
    with Cons.prems u have "applyUpdates us sh (adds @ [data]) = (sh', adds')"
      by simp
    from Cons.IH [OF this] False u show ?thesis
      by (simp add: offSheet_def)
  qed
qed


section \<open>Properties of the reconciliation\<close>

lemma findIndex_ge: "- 1 \<le> findIndex P xs"
  by (induction xs) (auto simp: Let_def)

lemma findIndex_found:
  "\<exists>x \<in> set xs. P x \<Longrightarrow>
     0 \<le> findIndex P xs \<and> findIndex P xs < int (length xs) \<and> P (xs ! nat (findIndex P xs))"
proof (induction xs)
  case Nil
  then show ?case by simp
next
  case (Cons a xs)
  show ?case
  proof (cases "P a")
    case True
    then show ?thesis by simp
  next
    case False
    with Cons.prems have "\<exists>x \<in> set xs. P x" by auto
    from Cons.IH [OF this] False show ?thesis
      by (auto simp: Let_def nat_add_distrib)
  qed
qed

lemma prepareHistoricalRowData_array:
  "\<exists>rest. prepareHistoricalRowData h date (PArray es) = Some (CStr (formatDate date ''dayColumn'') # rest)"
  by (simp add: prepareHistoricalRowData_def Let_def)

lemma collectRows_single_day:
  assumes "fetchDataFromApis h (Some d) ''historical'' n = (Some (PArray es), n1)"
      and "prepareHistoricalRowData h (Some d) (PArray es) = Some rowData"
  shows "collectRows h ex d d [] [] n =
     (if formatDate (Some d) ''sheet'' \<in> set (map (rowKey h) ex)
      then ([(findIndex (\<lambda>r. rowKey h r = formatDate (Some d) ''sheet'') ex + 1, rowData)], [], n1)
      else ([], [rowData], n1))"
proof -
  have stop: "\<And>us ads m. collectRows h ex (d + msPerDay) d us ads m = (us, ads, m)"
    by (subst collectRows.simps) (simp add: msPerDay_def)
  show ?thesis
    by (subst collectRows.simps) (simp add: assms Let_def stop)
qed

lemma sortSheetByDate_mset: "sortPermutes h \<Longrightarrow> mset (sortSheetByDate h sh) = mset sh"
  by (cases sh) (simp_all add: sortSheetByDate_def sortPermutes_def)

lemma getLastColumn_ge: "r \<in> set sh \<Longrightarrow> length r \<le> getLastColumn sh"
  by (induction sh) (auto simp: getLastColumn_def)

lemma getSheetData_ok: "r \<in> set sh \<Longrightarrow> r \<noteq> [] \<Longrightarrow> getSheetData sh = Inr sh"
  using getLastColumn_ge [of r sh] by (cases sh; cases r) (auto simp: getSheetData_def)

lemma laterHost_simps:
  "rowKey (laterHost h a b) = rowKey h"
  "sortPermutes (laterHost h a b) = sortPermutes h"
  "hostNow (laterHost h a b) = a"
  by (auto simp: rowKey_def cellToDate_def laterHost_def sortPermutes_def fun_eq_iff
        split: cell.splits)

text \<open>One run over a single day for which the API has data.\<close>

lemma single_day_run:
  assumes perm: "sortPermutes h" and rng: "1420070400000 \<le> d" "d \<le> hostNow h"
      and data: "getSheetData sh = Inr sh"
      and fetch: "fst (fetchDataFromApis h (Some d) ''historical'' n) = Some (PArray es)"
      and run: "updateHistoricalValues h sh (Some d) (Some d) n = (r, sh', n')"
  shows "\<exists>rowData. firstCell rowData = CStr (formatDate (Some d) ''dayColumn'') \<and>
          n' = snd (fetchDataFromApis h (Some d) ''historical'' n) \<and>
          (if formatDate (Some d) ''sheet'' \<in> set (map (rowKey h) sh)
           then r = Inr (1, 0) \<and>
                (\<exists>i < length sh. rowKey h (sh ! i) = formatDate (Some d) ''sheet''
                    \<and> mset sh' = mset (sh[i := writeRow rowData (sh ! i)]))
           else r = Inr (0, 1) \<and> mset sh' = mset (sh @ [rowData]))"
proof -
  let ?key = "formatDate (Some d) ''sheet''"
  let ?P = "\<lambda>r. rowKey h r = ?key"
  obtain n1 where f: "fetchDataFromApis h (Some d) ''historical'' n = (Some (PArray es), n1)"
    using fetch by (cases "fetchDataFromApis h (Some d) ''historical'' n") auto
  obtain rest where p: "prepareHistoricalRowData h (Some d) (PArray es)
      = Some (CStr (formatDate (Some d) ''dayColumn'') # rest)"
    using prepareHistoricalRowData_array by blast
  let ?row = "CStr (formatDate (Some d) ''dayColumn'') # rest"
  have v1: "validateDate (Some d) minDate2015 (Some (hostNow h)) = Inr ()"
    using rng by (simp add: validateDate_def minDate2015_def date_lt_def)
  have v2: "validateDate (Some d) (Some d) (Some (hostNow h)) = Inr ()"
    using rng by (simp add: validateDate_def date_lt_def)
  note c = collectRows_single_day [OF f p, of sh]
  have fc: "firstCell ?row = CStr (formatDate (Some d) ''dayColumn'')"
    by (simp add: firstCell_def)
  show ?thesis
  proof (cases "?key \<in> set (map (rowKey h) sh)")
    case True
    then have "\<exists>x \<in> set sh. ?P x" by auto
    from findIndex_found [OF this]
    have i0: "0 \<le> findIndex ?P sh" and i1: "findIndex ?P sh < int (length sh)"
      and i2: "rowKey h (sh ! nat (findIndex ?P sh)) = ?key"
      by auto
    let ?i = "nat (findIndex ?P sh)"
    have ni: "nat (findIndex ?P sh + 1) - Suc 0 = ?i" using i0 by simp
    have "updateHistoricalValues h sh (Some d) (Some d) n
        = (Inr (1, 0), sortSheetByDate h (sh[?i := writeRow ?row (sh ! ?i)]), n1)"
      using True i0 i1
      by (simp add: updateHistoricalValues_def v1 v2 data c writeRows_def appendRows_def ni)
    with run have "r = Inr (1, 0)" and "sh' = sortSheetByDate h (sh[?i := writeRow ?row (sh ! ?i)])"
      and "n' = n1"
      by auto
    with sortSheetByDate_mset [OF perm] i1 i0 i2 True fc f show ?thesis
      by (intro exI [of _ ?row]) (auto intro!: exI [of _ ?i])
  next
    case False
    have "updateHistoricalValues h sh (Some d) (Some d) n
        = (Inr (0, 1), sortSheetByDate h (sh @ [?row]), n1)"
      using False
      by (simp add: updateHistoricalValues_def v1 v2 data c writeRows_def appendRows_def)
    with run have "r = Inr (0, 1)" and "sh' = sortSheetByDate h (sh @ [?row])" and "n' = n1"
      by auto
    with sortSheetByDate_mset [OF perm] False fc f show ?thesis
      by (intro exI [of _ ?row]) auto
  qed
qed

lemma exDay_key: "formatDate (Some exDay) ''sheet'' = ''2024-03-15''"
  by code_simp

lemma exSheet_keys: "map (rowKey exHost) exSheet = [''NaN-aN-aN'', ''2024-03-14'']"
  by code_simp

lemma dupSheet_keys: "map (rowKey exHost) dupSheet = [''NaN-aN-aN'', ''2024-03-10'', ''2024-03-10'']"
  by code_simp

lemma exHost_facts:
  "sortPermutes exHost" "1420070400000 \<le> exDay" "exDay \<le> hostNow exHost"
  "hostNow exHost \<le> 1711929660000"
  by (simp_all add: sortPermutes_def exHost_def exDay_def)

lemma exHost_fetch:
  "fst (fetchDataFromApis exHost (Some exDay) ''historical'' exNet) = Some (PArray exPayload)"
  by code_simp

lemma exDay_label: "formatDate (Some exDay) ''dayColumn'' = ''Viernes 15/03/2024''"
  by code_simp

lemma exDay_label_unread:
  "hostDateParse exHost ''Viernes 15/03/2024'' = None"
  "formatDate None ''sheet'' = ''NaN-aN-aN''"
  by code_simp+

lemma exSheet_labels:
  "filter (\<lambda>r. firstCell r = CStr ''Viernes 15/03/2024'') exSheet = []" "length exSheet = 2"
  by code_simp+

text \<open>
  A run does not remove rows that already share a key: on a sheet that stores 2024-03-10
  twice, the run over 2024-03-15 adds one row and the two rows of 2024-03-10 remain.
\<close>

lemma stored_duplicates_stay:
  "fst (updateHistoricalValues exHost dupSheet (Some exDay) (Some exDay) exNet) = Inr (0, 1)
   \<and> \<not> distinct (map (rowKey exHost) dupSheet)
   \<and> \<not> distinct (map (rowKey exHost)
                   (fst (snd (updateHistoricalValues exHost dupSheet (Some exDay) (Some exDay) exNet))))"
proof -
  let ?run = "updateHistoricalValues exHost dupSheet (Some exDay) (Some exDay) exNet"
  have g: "getSheetData dupSheet = Inr dupSheet" by code_simp
  have e: "?run = (fst ?run, fst (snd ?run), snd (snd ?run))" by simp
  have k: "formatDate (Some exDay) ''sheet'' \<notin> set (map (rowKey exHost) dupSheet)"
    by (simp add: dupSheet_keys exDay_key)
  have nd: "\<not> distinct (map (rowKey exHost) dupSheet)" by (simp add: dupSheet_keys)
  from single_day_run [OF exHost_facts(1,2,3) g exHost_fetch e] k
  obtain rowData where r: "fst ?run = Inr (0, 1)"
    and m: "mset (fst (snd ?run)) = mset (dupSheet @ [rowData])"
    by auto
  have "mset (map (rowKey exHost) (fst (snd ?run))) = mset (map (rowKey exHost) (dupSheet @ [rowData]))"
    using m by (metis mset_map)
  moreover have "\<not> distinct (map (rowKey exHost) (dupSheet @ [rowData]))" using nd by simp
  ultimately have "\<not> distinct (map (rowKey exHost) (fst (snd ?run)))"
    by (metis mset_eq_imp_distinct_iff)
  with r nd show ?thesis by blast
qed

text \<open>
  C1 at its failing input: the sheet holds the header and the row of 2024-03-14, the API has
  data for 2024-03-15, and \<^verbatim>\<open>updateHistoricalValues\<close> runs twice over that single day. The
  first run adds the row of the day with the first cell \<^verbatim>\<open>Viernes 15/03/2024\<close>, the text of
  \<^verbatim>\<open>formatDate(date, 'dayColumn')\<close>. The keys of the stored rows are
  \<^verbatim>\<open>formatDate(new Date(row[0]), 'sheet')\<close>, and the runtime reads that text as an invalid date
  (15 is no month), so the key 2024-03-15 is not among the keys of the sheet that the first
  run leaves. The second run, with the same API data, does not find the row: it reports no
  row updated and one added, the sheet grows from three rows to four, and it stores the day
  twice.
\<close>

theorem second_run_appends_again:
  "formatDate (Some exDay) ''dayColumn'' = ''Viernes 15/03/2024''
   \<and> hostDateParse exHost ''Viernes 15/03/2024'' = None
   \<and> fst exRun1 = Inr (0, 1)
   \<and> length (fst (snd exRun1)) = 3
   \<and> formatDate (Some exDay) ''sheet'' \<notin> set (map (rowKey exHost) (fst (snd exRun1)))
   \<and> fst exRun2 = Inr (0, 1)
   \<and> length (fst (snd exRun2)) = 4
   \<and> length (filter (\<lambda>r. firstCell r = CStr ''Viernes 15/03/2024'') (fst (snd exRun2))) = 2"
proof -
  let ?h = exHost
  let ?h2 = "laterHost exHost 1711929660000 ''2024-04-01T00:01:00.000Z''"
  let ?P = "\<lambda>r. firstCell r = CStr ''Viernes 15/03/2024''"
  have p2: "sortPermutes ?h2" "exDay \<le> hostNow ?h2"
    using exHost_facts by (simp_all add: laterHost_simps)
  have g: "getSheetData exSheet = Inr exSheet" by code_simp
  have e: "updateHistoricalValues ?h exSheet (Some exDay) (Some exDay) exNet
             = (fst exRun1, fst (snd exRun1), snd (snd exRun1))"
    by (simp add: exRun1_def)
  have k: "formatDate (Some exDay) ''sheet'' \<notin> set (map (rowKey ?h) exSheet)"
    by (simp add: exSheet_keys exDay_key)
  from single_day_run [OF exHost_facts(1,2,3) g exHost_fetch e] k
  obtain rowData where fc0: "firstCell rowData = CStr (formatDate (Some exDay) ''dayColumn'')"
    and nn: "snd (snd exRun1) = snd (fetchDataFromApis ?h (Some exDay) ''historical'' exNet)"
    and r: "fst exRun1 = Inr (0, 1)"
    and m: "mset (fst (snd exRun1)) = mset (exSheet @ [rowData])"
    by auto
  have fc: "?P rowData" using fc0 by (simp only: exDay_label)
  have "size (mset (fst (snd exRun1))) = size (mset (exSheet @ [rowData]))"
    by (simp only: m)
  then have l1: "length (fst (snd exRun1)) = 3"
    by (simp add: exSheet_labels(2))
  have kr: "rowKey ?h rowData = ''NaN-aN-aN''"
    using fc by (simp add: rowKey_def cellToDate_def exDay_label_unread)
  have s1: "set (fst (snd exRun1)) = set (exSheet @ [rowData])"
    using m by (metis set_mset_mset)
  then have ks: "set (map (rowKey ?h) (fst (snd exRun1)))
      = insert (rowKey ?h rowData) (set (map (rowKey ?h) exSheet))"
    by simp
  have k1: "formatDate (Some exDay) ''sheet'' \<notin> set (map (rowKey ?h) (fst (snd exRun1)))"
    unfolding ks kr exSheet_keys exDay_key by simp
  have k2: "formatDate (Some exDay) ''sheet'' \<notin> set (map (rowKey ?h2) (fst (snd exRun1)))"
    unfolding laterHost_simps by (rule k1)
  have "rowData \<in> set (fst (snd exRun1))" "rowData \<noteq> []"
    using s1 fc by (auto simp: firstCell_def)
  then have g2: "getSheetData (fst (snd exRun1)) = Inr (fst (snd exRun1))"
    by (rule getSheetData_ok)
  have "fst (fetchDataFromApis ?h2 (Some exDay) ''historical''
               (snd (fetchDataFromApis ?h (Some exDay) ''historical'' exNet))) = Some (PArray exPayload)"
    by code_simp
  then have f2: "fst (fetchDataFromApis ?h2 (Some exDay) ''historical'' (snd (snd exRun1)))
      = Some (PArray exPayload)"
    by (simp only: nn)
  have e2: "updateHistoricalValues ?h2 (fst (snd exRun1)) (Some exDay) (Some exDay) (snd (snd exRun1))
              = (fst exRun2, fst (snd exRun2), snd (snd exRun2))"
    by (simp add: exRun2_def)
  from single_day_run [OF p2(1) exHost_facts(2) p2(2) g2 f2 e2] k2
  obtain rowData2 where fc20: "firstCell rowData2 = CStr (formatDate (Some exDay) ''dayColumn'')"
    and r2: "fst exRun2 = Inr (0, 1)"
    and m2: "mset (fst (snd exRun2)) = mset (fst (snd exRun1) @ [rowData2])"
    by auto
  have fc2: "?P rowData2" using fc20 by (simp only: exDay_label)
  have m3: "mset (fst (snd exRun2)) = mset (exSheet @ [rowData, rowData2])"
    using m2 m by simp
  have "size (mset (fst (snd exRun2))) = size (mset (exSheet @ [rowData, rowData2]))"
    by (simp only: m3)
  then have l2: "length (fst (snd exRun2)) = 4"
    by (simp add: exSheet_labels(2))
  have "length (filter ?P (fst (snd exRun2))) = size (mset (filter ?P (fst (snd exRun2))))"
    by (simp only: size_mset)
  also have "\<dots> = size (mset (filter ?P (exSheet @ [rowData, rowData2])))"
    by (simp only: mset_filter m3)
  also have "\<dots> = 2"
    using fc fc2 by (simp add: exSheet_labels(1))
  finally have l3: "length (filter ?P (fst (snd exRun2))) = 2" .
  show ?thesis using exDay_label exDay_label_unread(1) r l1 k1 r2 l2 l3 by blast
qed

text \<open>
  The loop of a call queues only updates whose row is on the sheet it has read, so within a
  call the two counts are the lengths of the two queues.
\<close>

lemma collectRows_queues_rows_on_sheet:
  "collectRows h ex cur en us adds n = (us', adds', n')
     \<Longrightarrow> \<forall>u \<in> set us. \<not> offSheet ex u \<Longrightarrow> \<forall>u \<in> set us'. \<not> offSheet ex u"
proof (induction h ex cur en us adds n arbitrary: us' adds' n' rule: collectRows.induct)
  case (1 h ex cur en us adds n)
  let ?key = "formatDate (Some cur) ''sheet''"
  let ?P = "\<lambda>r. rowKey h r = ?key"
  show ?case
  proof (cases "cur \<le> en")
    case False
    with "1.prems" show ?thesis by (subst (asm) collectRows.simps) auto
  next
    case le: True
    obtain resp n1 where f: "fetchDataFromApis h (Some cur) ''historical'' n = (resp, n1)"
      by (cases "fetchDataFromApis h (Some cur) ''historical'' n")
    show ?thesis
    proof (cases resp)
      case None
      with "1.prems"(1) le f
      have "collectRows h ex (cur + msPerDay) en us adds n1 = (us', adds', n')"
        by (subst (asm) collectRows.simps) simp
      from "1.IH"(1) [OF le f [symmetric] None this "1.prems"(2)] show ?thesis .
    next
      case (Some p)
      show ?thesis
      proof (cases "prepareHistoricalRowData h (Some cur) p")
        case None
        with "1.prems"(1) le f Some
        have "collectRows h ex (cur + msPerDay) en us adds n1 = (us', adds', n')"
          by (subst (asm) collectRows.simps) simp
        from "1.IH"(2) [OF le f [symmetric] Some None this "1.prems"(2)] show ?thesis .
      next
        case row: (Some rowData)
        show ?thesis
        proof (cases "?key \<in> set (map (rowKey h) ex)")
          case True
          then have "\<exists>x \<in> set ex. ?P x" by auto
          from findIndex_found [OF this]
          have ok: "\<not> offSheet ex (findIndex ?P ex + 1, rowData)"
            by (simp add: offSheet_def)
          from "1.prems"(1) le f Some row True
          have c: "collectRows h ex (cur + msPerDay) en (us @ [(findIndex ?P ex + 1, rowData)]) adds n1
                  = (us', adds', n')"
            by (subst (asm) collectRows.simps) (simp add: Let_def)
          have "\<forall>u \<in> set (us @ [(findIndex ?P ex + 1, rowData)]). \<not> offSheet ex u"
            using "1.prems"(2) ok by auto
          from "1.IH"(3) [OF le f [symmetric] Some row refl True c this] show ?thesis .
        next
          case False
          from "1.prems"(1) le f Some row False
          have c: "collectRows h ex (cur + msPerDay) en us (adds @ [rowData]) n1 = (us', adds', n')"
            by (subst (asm) collectRows.simps) (simp add: Let_def)
          from "1.IH"(4) [OF le f [symmetric] Some row refl False c "1.prems"(2)] show ?thesis .
        qed
      qed
    qed
  qed
qed

lemma counts_of_a_call:
  assumes "updateHistoricalValues h sh (Some s) (Some e) n = (Inr (u, a), sh', n')"
      and "collectRows h sh s e [] [] n = (us, adds, n1)"
  shows "u = length us \<and> a = length adds"
proof -
  have ex: "getSheetData sh = Inr sh"
    using assms(1) by (auto simp: updateHistoricalValues_def getSheetData_def split: sum.splits if_splits)
  have "\<forall>x \<in> set us. \<not> offSheet sh x"
    using collectRows_queues_rows_on_sheet [OF assms(2)] by simp
  then have "filter (offSheet sh) us = []" by (simp add: filter_empty_conv)
  moreover have "fst (writeRows h us adds sh) = (u, a)"
    using assms ex by (auto simp: updateHistoricalValues_def split: sum.splits prod.splits)
  moreover obtain sh1 adds1 where ap: "applyUpdates us sh adds = (sh1, adds1)"
    by (cases "applyUpdates us sh adds")
  ultimately show ?thesis
    using applyUpdates_result [OF ap] by (simp add: writeRows_def)
qed

end
